theory Spec2Isabelle
  imports Complex_Main "HOL-Library.AList"
begin

section \<open>Conventions\<close>

text \<open>
  The program is a Node.js supervisor of worker daemons. Its classes are embedded as
  records, its methods as functions that take the object and return the updated object
  together with the events the method emits, in emission order.

  \<^item> A JavaScript \<open>Map\<close> keeps insertion order and has one value per key: it is an
    association list with \<open>map_of\<close> for \<open>get\<close>, \<open>AList.update\<close> for \<open>set\<close>
    (in place for a known key, appended for a new one) and \<open>AList.delete\<close> for
    \<open>delete\<close>.
  \<^item> \<open>Date.now()\<close> is the parameter \<open>now\<close> of the step that reads it, in milliseconds.
  \<^item> Counters and timestamps are integers within the exact range of a double, so
    \<open>Math.floor (a / b)\<close> is \<open>a div b\<close> when \<open>b\<close> is not \<open>0\<close>. Where the code divides by
    a field that could be \<open>0\<close>, the theorems assume that it is not.
  \<^item> JavaScript truthiness is written out: a number is truthy when it is not \<open>0\<close>, a
    string when it is not empty, \<open>null\<close> and \<open>undefined\<close> are \<open>None\<close>.
\<close>

type_synonym agentId = string

definition truthyNum :: "int option \<Rightarrow> bool" where
  "truthyNum v = (case v of None \<Rightarrow> False | Some n \<Rightarrow> n \<noteq> 0)"

definition toNumber :: "int option \<Rightarrow> int" where
  \<comment> \<open>\<open>null\<close> converts to \<open>0\<close> in arithmetic\<close>
  "toNumber v = (case v of None \<Rightarrow> 0 | Some n \<Rightarrow> n)"

section \<open>Daemon (lib/daemon.js)\<close>

datatype DaemonState = IDLE | PROMOTING | ACTIVE | DEMOTING | CRASHED

record task =
  t_role :: "string option"
  t_component :: "string option"
  t_prompt :: "string option"
  t_id :: "string option"

text \<open>A child process object; its \<open>pid\<close> is undefined when the operating system
  started nothing.\<close>

record child =
  c_pid :: "nat option"

record daemon =
  d_agentId :: agentId
  d_name :: string
  d_workspace :: string
  d_role :: string
  d_channels :: "string list"
  d_heartbeatIntervalMs :: int
  d_command :: string
  d_state :: DaemonState
  d_currentTask :: "task option"
  d_claudeProcess :: "child option"
  d_heartbeatTimer :: bool

text \<open>The events a daemon emits. Two of them are not events: \<open>Killed\<close> records the
  \<open>SIGTERM\<close> that \<open>stop\<close> sends to the child process, and \<open>TypeErrorRaised\<close> the
  \<open>TypeError\<close> that ends a method which reads a field of a task that is \<open>null\<close>.\<close>

datatype devent =
    Started agentId
  | Stopped agentId
  | Killed agentId
  | PromoteRequest agentId "task option"
  | Unclaim agentId string
  | Promoted agentId "nat option" "task option"
  | Fail agentId "task option" string
  | Crashed agentId string
  | ErrorEvent agentId string
  | TypeErrorRaised agentId

datatype error =
    DaemonRequiresAgentId
  | DaemonRequiresName
  | DaemonRequiresWorkspace
  | SpawnRequiresName
  | WorkspaceAlreadyExists string
  | UnhandledErrorEvent agentId string
  | TypeError agentId
  | SupervisorNotRunning

record daemon_config =
  dc_agentId :: agentId
  dc_name :: string
  dc_workspace :: string
  dc_role :: "string option"
  dc_channels :: "string list option"
  dc_heartbeatIntervalMs :: "int option"
  dc_command :: "string option"

definition newDaemon :: "daemon_config \<Rightarrow> error + daemon" where
  "newDaemon config =
     (if dc_agentId config = [] then Inl DaemonRequiresAgentId
      else if dc_name config = [] then Inl DaemonRequiresName
      else if dc_workspace config = [] then Inl DaemonRequiresWorkspace
      else Inr \<lparr>
        d_agentId = dc_agentId config,
        d_name = dc_name config,
        d_workspace = dc_workspace config,
        d_role = (case dc_role config of None \<Rightarrow> ''builder''
                  | Some r \<Rightarrow> if r = [] then ''builder'' else r),
        d_channels = (case dc_channels config of None \<Rightarrow> [''#agents''] | Some cs \<Rightarrow> cs),
        d_heartbeatIntervalMs =
          (if truthyNum (dc_heartbeatIntervalMs config)
           then toNumber (dc_heartbeatIntervalMs config) else 30000),
        d_command = (case dc_command config of None \<Rightarrow> ''claude''
                     | Some c \<Rightarrow> if c = [] then ''claude'' else c),
        d_state = IDLE,
        d_currentTask = None,
        d_claudeProcess = None,
        d_heartbeatTimer = False \<rparr>)"

definition startHeartbeat :: "daemon \<Rightarrow> daemon" where
  "startHeartbeat d = d\<lparr>d_heartbeatTimer := True\<rparr>"

definition stopHeartbeat :: "daemon \<Rightarrow> daemon" where
  "stopHeartbeat d = (if d_heartbeatTimer d then d\<lparr>d_heartbeatTimer := False\<rparr> else d)"

definition start :: "daemon \<Rightarrow> daemon \<times> devent list" where
  "start d = (startHeartbeat (d\<lparr>d_state := IDLE\<rparr>), [Started (d_agentId d)])"

definition stop :: "daemon \<Rightarrow> daemon \<times> devent list" where
  "stop d =
     (let d1 = stopHeartbeat d;
          (d2, killed) = (case d_claudeProcess d1 of
                            Some p \<Rightarrow> (d1\<lparr>d_claudeProcess := None\<rparr>, [Killed (d_agentId d1)])
                          | None \<Rightarrow> (d1, []))
      in (d2\<lparr>d_state := IDLE, d_currentTask := None\<rparr>, killed @ [Stopped (d_agentId d)]))"

definition requestPromotion :: "task option \<Rightarrow> daemon \<Rightarrow> daemon \<times> devent list" where
  "requestPromotion t d =
     (d\<lparr>d_state := PROMOTING, d_currentTask := t\<rparr>, [PromoteRequest (d_agentId d) t])"

definition denyPromotion :: "string option \<Rightarrow> daemon \<Rightarrow> daemon \<times> devent list" where
  "denyPromotion reason d =
     (if d_state d \<noteq> PROMOTING then (d, [])
      else (d\<lparr>d_state := IDLE, d_currentTask := None\<rparr>,
            [Unclaim (d_agentId d)
               (case reason of None \<Rightarrow> ''promotion denied''
                | Some r \<Rightarrow> if r = [] then ''promotion denied'' else r)]))"

text \<open>What \<open>child_process.spawn\<close> does is the environment's choice: it returns a child
  or throws.\<close>

datatype spawn_outcome = Spawned child | SpawnThrows string

definition handleClaudeError :: "string \<Rightarrow> daemon \<Rightarrow> daemon \<times> devent list" where
  "handleClaudeError msg d =
     (d\<lparr>d_state := CRASHED\<rparr>,
      [Fail (d_agentId d) (d_currentTask d) msg, Crashed (d_agentId d) msg])"

definition spawnClaude :: "spawn_outcome \<Rightarrow> daemon \<Rightarrow> daemon \<times> devent list" where
  "spawnClaude outcome d =
     (let d1 = stopHeartbeat (d\<lparr>d_state := ACTIVE\<rparr>)
      in case outcome of
           Spawned p \<Rightarrow>
             (d1\<lparr>d_claudeProcess := Some p\<rparr>,
              [Promoted (d_agentId d1) (c_pid p) (d_currentTask d1)])
         | SpawnThrows msg \<Rightarrow> handleClaudeError msg d1)"

text \<open>\<open>approvePromotion\<close> reads \<open>this.currentTask.component\<close> for the context file
  before it starts the executor: without a task, neither passed nor attached, that read
  raises. Writing the context file itself never fails the daemon.\<close>

definition approvePromotion :: "spawn_outcome \<Rightarrow> task option \<Rightarrow> daemon \<Rightarrow> daemon \<times> devent list" where
  "approvePromotion outcome t d =
     (if d_state d \<noteq> PROMOTING
      then (d, [ErrorEvent (d_agentId d) ''Cannot promote: not in promoting state''])
      else
        (let d1 = d\<lparr>d_currentTask := (case t of Some x \<Rightarrow> Some x | None \<Rightarrow> d_currentTask d)\<rparr>
         in case d_currentTask d1 of
              None \<Rightarrow> (d1, [TypeErrorRaised (d_agentId d1)])
            | Some x \<Rightarrow> spawnClaude outcome d1))"

section \<open>Health monitor (health-monitor.js)\<close>

datatype health_status = Alive | Unresponsive | Dead

record agent_health =
  ah_lastSeen :: int
  ah_status :: health_status
  ah_consecutiveMisses :: int
  ah_pid :: "nat option"
  ah_memoryMb :: "rat option"
  ah_cpuPct :: "rat option"
  ah_uptimeSeconds :: int
  ah_registeredAt :: int

record health_monitor =
  hm_heartbeatIntervalMs :: int
  hm_missThreshold :: int
  hm_checkIntervalMs :: int
  hm_memoryLimitMb :: rat
  hm_cpuLimitPct :: rat
  hm_agents :: "(agentId \<times> agent_health) list"
  hm_checkTimer :: bool

datatype alert_reason = UnresponsiveAlert | MemoryLimit | CpuLimit

record alert =
  al_agentId :: agentId
  al_reason :: alert_reason

record health_options =
  ho_heartbeatIntervalMs :: "int option"
  ho_missThreshold :: "int option"
  ho_checkIntervalMs :: "int option"
  ho_memoryLimitMb :: "rat option"
  ho_cpuLimitPct :: "rat option"

definition newHealthMonitor :: "health_options \<Rightarrow> health_monitor" where
  "newHealthMonitor options = \<lparr>
     hm_heartbeatIntervalMs =
       (if truthyNum (ho_heartbeatIntervalMs options)
        then toNumber (ho_heartbeatIntervalMs options) else 30000),
     hm_missThreshold =
       (if truthyNum (ho_missThreshold options) then toNumber (ho_missThreshold options) else 3),
     hm_checkIntervalMs =
       (if truthyNum (ho_checkIntervalMs options)
        then toNumber (ho_checkIntervalMs options) else 10000),
     hm_memoryLimitMb = (case ho_memoryLimitMb options of None \<Rightarrow> 0 | Some m \<Rightarrow> m),
     hm_cpuLimitPct = (case ho_cpuLimitPct options of None \<Rightarrow> 0 | Some c \<Rightarrow> c),
     hm_agents = [],
     hm_checkTimer = False \<rparr>"

definition register :: "int \<Rightarrow> agentId \<Rightarrow> nat option \<Rightarrow> health_monitor \<Rightarrow> health_monitor" where
  "register now aid p hm =
     hm\<lparr>hm_agents := AList.update aid
          \<lparr> ah_lastSeen = now, ah_status = Alive, ah_consecutiveMisses = 0, ah_pid = p,
            ah_memoryMb = None, ah_cpuPct = None, ah_uptimeSeconds = 0,
            ah_registeredAt = now \<rparr> (hm_agents hm)\<rparr>"

definition unregister :: "agentId \<Rightarrow> health_monitor \<Rightarrow> health_monitor" where
  "unregister aid hm = hm\<lparr>hm_agents := AList.delete aid (hm_agents hm)\<rparr>"

definition heartbeat :: "int \<Rightarrow> agentId \<Rightarrow> health_monitor \<Rightarrow> health_monitor" where
  "heartbeat now aid hm =
     (case map_of (hm_agents hm) aid of
        None \<Rightarrow> hm
      | Some agent \<Rightarrow>
          hm\<lparr>hm_agents := AList.update aid
               (agent\<lparr>ah_lastSeen := now, ah_consecutiveMisses := 0, ah_status := Alive\<rparr>)
               (hm_agents hm)\<rparr>)"

definition updatePid :: "agentId \<Rightarrow> nat option \<Rightarrow> health_monitor \<Rightarrow> health_monitor" where
  "updatePid aid p hm =
     (case map_of (hm_agents hm) aid of
        None \<Rightarrow> hm
      | Some agent \<Rightarrow> hm\<lparr>hm_agents := AList.update aid (agent\<lparr>ah_pid := p\<rparr>) (hm_agents hm)\<rparr>)"

text \<open>\<open>_queryProcessStats\<close> runs \<open>ps\<close>; its answer for a pid is the environment's:
  \<open>None\<close> when \<open>ps\<close> fails or prints too little, else memory in MB and CPU percent.\<close>

type_synonym process_stats = "nat \<Rightarrow> (rat \<times> rat) option"

text \<open>The body of the loop of \<open>check\<close> for one record.\<close>

definition checkAgent ::
  "health_monitor \<Rightarrow> process_stats \<Rightarrow> int \<Rightarrow> agentId \<Rightarrow> agent_health \<Rightarrow> agent_health \<times> alert list"
where
  "checkAgent hm stats now aid agent =
     (let a1 = agent\<lparr>ah_uptimeSeconds := (now - ah_registeredAt agent) div 1000\<rparr>;
          timeSinceHeartbeat = now - ah_lastSeen a1;
          (a2, alerts1) =
            (if timeSinceHeartbeat > hm_heartbeatIntervalMs hm then
               (let missedCycles = timeSinceHeartbeat div hm_heartbeatIntervalMs hm;
                    a = a1\<lparr>ah_consecutiveMisses := missedCycles\<rparr>
                in if missedCycles \<ge> hm_missThreshold hm then
                     (if ah_status a \<noteq> Dead
                      then (a\<lparr>ah_status := Dead\<rparr>,
                            [\<lparr>al_agentId = aid, al_reason = UnresponsiveAlert\<rparr>])
                      else (a, []))
                   else if ah_status a \<noteq> Dead then (a\<lparr>ah_status := Unresponsive\<rparr>, [])
                   else (a, []))
             else (a1, []));
          (a3, alerts2) =
            (case ah_pid a2 of
               None \<Rightarrow> (a2, [])
             | Some p \<Rightarrow>
                 if p = 0 then (a2, [])
                 else (case stats p of
                         None \<Rightarrow> (a2, [])
                       | Some (memoryMb, cpuPct) \<Rightarrow>
                           (a2\<lparr>ah_memoryMb := Some memoryMb, ah_cpuPct := Some cpuPct\<rparr>,
                            (if hm_memoryLimitMb hm > 0 \<and> memoryMb > hm_memoryLimitMb hm
                             then [\<lparr>al_agentId = aid, al_reason = MemoryLimit\<rparr>] else []) @
                            (if hm_cpuLimitPct hm > 0 \<and> cpuPct > hm_cpuLimitPct hm
                             then [\<lparr>al_agentId = aid, al_reason = CpuLimit\<rparr>] else []))))
      in (a3, alerts1 @ alerts2))"

fun checkLoop ::
  "health_monitor \<Rightarrow> process_stats \<Rightarrow> int \<Rightarrow> (agentId \<times> agent_health) list
     \<Rightarrow> (agentId \<times> agent_health) list \<times> alert list"
where
  "checkLoop hm stats now [] = ([], [])"
| "checkLoop hm stats now ((aid, agent) # rest) =
     (let (agent', alerts) = checkAgent hm stats now aid agent;
          (rest', alerts') = checkLoop hm stats now rest
      in ((aid, agent') # rest', alerts @ alerts'))"

definition check :: "process_stats \<Rightarrow> int \<Rightarrow> health_monitor \<Rightarrow> health_monitor \<times> alert list" where
  "check stats now hm =
     (let (agents', alerts) = checkLoop hm stats now (hm_agents hm)
      in (hm\<lparr>hm_agents := agents'\<rparr>, alerts))"

section \<open>Double-precision arithmetic\<close>

text \<open>
  The quota probe computes with JavaScript numbers, which are doubles: the result of a
  division, a product or a sum is the exact result rounded to the nearest double, ties to
  the even significand. \<open>fl64\<close> is that rounding on the rationals, with the 53 significant
  bits and the smallest exponent of the format; results beyond the largest double are
  outside the model. \<open>Math.ceil\<close> and \<open>Math.round\<close> of a double are exact.
\<close>

function bitLength :: "int \<Rightarrow> int" where
  "bitLength n = (if n \<le> 0 then 0 else 1 + bitLength (n div 2))"
  by pat_completeness auto

termination bitLength
  by (relation "measure nat") auto

definition pow2 :: "int \<Rightarrow> rat" where
  "pow2 e = (if e \<ge> 0 then 2 ^ nat e else 1 / 2 ^ nat (- e))"

text \<open>The binary exponent \<open>e\<close> of a positive number \<open>x\<close>: \<open>pow2 e \<le> x < pow2 (e + 1)\<close>.\<close>

definition exponentOf :: "rat \<Rightarrow> int" where
  "exponentOf x =
     (if x \<ge> 1 then bitLength \<lfloor>x\<rfloor> - 1
      else (let k = bitLength \<lfloor>1 / x\<rfloor> - 1
            in if 1 / x = pow2 k then - k else - k - 1))"

definition roundHalfEven :: "rat \<Rightarrow> int" where
  "roundHalfEven m =
     (let f = \<lfloor>m\<rfloor>; r = m - of_int f
      in if r < 1 / 2 then f else if r > 1 / 2 then f + 1 else if even f then f else f + 1)"

definition fl64 :: "rat \<Rightarrow> rat" where
  "fl64 x =
     (if x = 0 then 0
      else (let a = \<bar>x\<bar>;
                e = max (exponentOf a) (- 1022);
                ulp = pow2 (e - 52);
                r = of_int (roundHalfEven (a / ulp)) * ulp
            in if x < 0 then - r else r))"

section \<open>Quota probe (quota-probe.js)\<close>

text \<open>
  Token counts, rates and thresholds are JavaScript numbers that need not be whole (the
  default warning threshold is \<open>0.8\<close>); they are rationals here. The estimates of
  \<open>record\<close>, the totals it adds up and the percentage it reports are computed as the code
  computes them, each division, product and sum rounded by \<open>fl64\<close>. The utilisation that
  \<open>record\<close> and \<open>setBudget\<close> compare with \<open>1\<close> and with the warning threshold is the
  quotient of total and budget before rounding. The probe divides by \<open>charsPerToken\<close> and
  by \<open>budget\<close>: the first is never \<open>0\<close> after construction (a configured \<open>0\<close> is falsy and
  replaced by the default), the second is divided by only under the guard \<open>budget > 0\<close>.
\<close>

record quota_config =
  qc_budget :: "rat option"
  qc_estimationMethod :: "string option"
  qc_charsPerToken :: "rat option"
  qc_tokensPerSecond :: "rat option"
  qc_warningThreshold :: "rat option"

record last_task =
  lt_tokens :: rat
  lt_durationMs :: rat
  lt_ts :: int

record agent_usage =
  au_totalTokens :: rat
  au_tasks :: nat
  au_lastTask :: "last_task option"

record quota_probe =
  qp_budget :: rat
  qp_estimationMethod :: string
  qp_charsPerToken :: rat
  qp_tokensPerSecond :: rat
  qp_warningThreshold :: rat
  qp_agents :: "(agentId \<times> agent_usage) list"
  qp_totalTokens :: rat
  qp_warningEmitted :: bool

record usage_result =
  r_agentId :: "agentId option"
  r_output :: "string option"
  r_durationMs :: "rat option"
  r_tokens :: "rat option"

datatype qevent =
    Usage agentId rat rat rat
  | BudgetExhausted rat rat
  | BudgetWarning rat rat int

definition CHARS_PER_TOKEN :: rat where
  "CHARS_PER_TOKEN = 4"

definition DEFAULT_TOKENS_PER_SECOND :: rat where
  "DEFAULT_TOKENS_PER_SECOND = 50"

definition orDefault :: "rat option \<Rightarrow> rat \<Rightarrow> rat" where
  \<comment> \<open>\<open>v || dflt\<close> on numbers\<close>
  "orDefault v dflt = (case v of None \<Rightarrow> dflt | Some x \<Rightarrow> if x = 0 then dflt else x)"

definition newQuotaProbe :: "quota_config \<Rightarrow> quota_probe" where
  "newQuotaProbe config = \<lparr>
     qp_budget = orDefault (qc_budget config) 0,
     qp_estimationMethod =
       (case qc_estimationMethod config of None \<Rightarrow> ''output''
        | Some m \<Rightarrow> if m = [] then ''output'' else m),
     qp_charsPerToken = orDefault (qc_charsPerToken config) CHARS_PER_TOKEN,
     qp_tokensPerSecond = orDefault (qc_tokensPerSecond config) DEFAULT_TOKENS_PER_SECOND,
     qp_warningThreshold = orDefault (qc_warningThreshold config) (4 / 5),
     qp_agents = [],
     qp_totalTokens = 0,
     qp_warningEmitted = False \<rparr>"

definition truthyStr :: "string option \<Rightarrow> bool" where
  "truthyStr v = (case v of None \<Rightarrow> False | Some x \<Rightarrow> x \<noteq> [])"

definition truthyRat :: "rat option \<Rightarrow> bool" where
  "truthyRat v = (case v of None \<Rightarrow> False | Some x \<Rightarrow> x \<noteq> 0)"

definition outputLength :: "usage_result \<Rightarrow> rat" where
  "outputLength result = (case r_output result of None \<Rightarrow> 0 | Some out \<Rightarrow> of_nat (length out))"

text \<open>The first part of \<open>record\<close>: the value of its local variable \<open>tokens\<close>.\<close>

definition estimateTokens :: "quota_probe \<Rightarrow> usage_result \<Rightarrow> rat" where
  "estimateTokens probe result =
     (if (case r_tokens result of None \<Rightarrow> False | Some t \<Rightarrow> t > 0)
      then (case r_tokens result of None \<Rightarrow> 0 | Some t \<Rightarrow> t)
      else if qp_estimationMethod probe = ''output'' \<and> truthyStr (r_output result)
      then of_int \<lceil>fl64 (outputLength result / qp_charsPerToken probe)\<rceil>
      else if qp_estimationMethod probe = ''duration'' \<and> truthyRat (r_durationMs result)
      then of_int \<lceil>fl64 (fl64 (orDefault (r_durationMs result) 0 / 1000)
                            * qp_tokensPerSecond probe)\<rceil>
      else if truthyStr (r_output result)
      then of_int \<lceil>fl64 (outputLength result / qp_charsPerToken probe)\<rceil>
      else 0)"

text \<open>\<open>record\<close> (the name is reserved in Isabelle). \<open>Math.round\<close> rounds halves up;
  what it rounds is the double \<open>pct * 100\<close> of the double \<open>pct\<close>.\<close>

definition record_usage :: "int \<Rightarrow> usage_result \<Rightarrow> quota_probe \<Rightarrow> quota_probe \<times> qevent list" where
  "record_usage now result probe =
     (if \<not> truthyStr (r_agentId result) then (probe, [])
      else
        (let aid = (case r_agentId result of None \<Rightarrow> [] | Some a \<Rightarrow> a);
             tokens = estimateTokens probe result;
             agent = (case map_of (qp_agents probe) aid of
                        None \<Rightarrow> \<lparr>au_totalTokens = 0, au_tasks = 0, au_lastTask = None\<rparr>
                      | Some a \<Rightarrow> a);
             agent' = agent\<lparr>
               au_totalTokens := fl64 (au_totalTokens agent + tokens),
               au_tasks := au_tasks agent + 1,
               au_lastTask := Some \<lparr>lt_tokens = tokens,
                                    lt_durationMs = orDefault (r_durationMs result) 0,
                                    lt_ts = now\<rparr>\<rparr>;
             p1 = probe\<lparr>qp_agents := AList.update aid agent' (qp_agents probe),
                        qp_totalTokens := fl64 (qp_totalTokens probe + tokens)\<rparr>;
             usage = Usage aid tokens (qp_totalTokens p1) (qp_budget p1)
         in if qp_budget p1 > 0 then
              (let pct = qp_totalTokens p1 / qp_budget p1
               in if pct \<ge> 1 then
                    (p1, [usage, BudgetExhausted (qp_totalTokens p1) (qp_budget p1)])
                  else if pct \<ge> qp_warningThreshold p1 \<and> \<not> qp_warningEmitted p1 then
                    (p1\<lparr>qp_warningEmitted := True\<rparr>,
                     [usage, BudgetWarning (qp_totalTokens p1) (qp_budget p1)
                               \<lfloor>fl64 (fl64 pct * 100) + 1 / 2\<rfloor>])
                  else (p1, [usage]))
            else (p1, [usage])))"


definition isExhausted :: "quota_probe \<Rightarrow> bool" where
  "isExhausted probe = (if qp_budget probe \<le> 0 then False else qp_totalTokens probe \<ge> qp_budget probe)"

definition reset :: "quota_probe \<Rightarrow> quota_probe" where
  "reset probe = probe\<lparr>qp_agents := [], qp_totalTokens := 0, qp_warningEmitted := False\<rparr>"




section \<open>Spawner (lib/spawner.js)\<close>

text \<open>
  The spawner creates one workspace directory per daemon under its base path and refuses
  a name whose directory is already there. The identity that \<open>generateIdentity\<close>
  derives from a fresh key pair is the environment's: it is the parameter \<open>newId\<close>. The
  \<open>git\<close> commands and file writes inside a new workspace are taken to succeed.
\<close>

subsection \<open>Paths and directories\<close>

text \<open>\<open>path.join\<close> on POSIX: the arguments that are not empty are joined with \<open>/\<close> and
  the result is normalised. Empty and \<open>.\<close> segments are dropped, \<open>..\<close> removes the segment
  before it (above the start of a relative path it is kept, above the root it is dropped),
  and a trailing \<open>/\<close> is kept.\<close>

fun splitPath :: "string \<Rightarrow> string list" where
  "splitPath [] = [[]]"
| "splitPath (c # cs) =
     (if c = CHR ''/'' then [] # splitPath cs
      else (case splitPath cs of [] \<Rightarrow> [[c]] | seg # segs \<Rightarrow> (c # seg) # segs))"

fun joinSegments :: "string list \<Rightarrow> string" where
  "joinSegments [] = []"
| "joinSegments [seg] = seg"
| "joinSegments (seg # segs) = seg @ ''/'' @ joinSegments segs"

text \<open>The segments kept so far are the second argument, the last one first.\<close>

fun normalizeSegments :: "bool \<Rightarrow> string list \<Rightarrow> string list \<Rightarrow> string list" where
  "normalizeSegments allowAboveRoot kept [] = rev kept"
| "normalizeSegments allowAboveRoot kept (seg # segs) =
     (if seg = [] \<or> seg = ''.'' then normalizeSegments allowAboveRoot kept segs
      else if seg = ''..'' then
        (case kept of
           [] \<Rightarrow> normalizeSegments allowAboveRoot (if allowAboveRoot then [seg] else []) segs
         | lastSeg # earlier \<Rightarrow>
             if lastSeg \<noteq> ''..'' then normalizeSegments allowAboveRoot earlier segs
             else normalizeSegments allowAboveRoot
                    (if allowAboveRoot then seg # kept else kept) segs)
      else normalizeSegments allowAboveRoot (seg # kept) segs)"

definition normalizePath :: "string \<Rightarrow> string" where
  "normalizePath p =
     (if p = [] then ''.''
      else
        (let isAbsolute = (hd p = CHR ''/'');
             trailingSeparator = (last p = CHR ''/'');
             body = joinSegments (normalizeSegments (\<not> isAbsolute) [] (splitPath p))
         in if body = []
            then (if isAbsolute then ''/'' else if trailingSeparator then ''./'' else ''.'')
            else (if isAbsolute then ''/'' else []) @ body
                   @ (if trailingSeparator then ''/'' else [])))"

definition pathJoin :: "string \<Rightarrow> string \<Rightarrow> string" where
  "pathJoin base name =
     (let joined = (if base = [] then name else if name = [] then base
                    else base @ ''/'' @ name)
      in if joined = [] then ''.'' else normalizePath joined)"

text \<open>The file system is the list of the workspace directories that exist and of their
  parents, each by its normalised path without a trailing \<open>/\<close>; the root and the working
  directory always exist. \<open>mkdirSync\<close> with \<open>recursive\<close> creates the missing parents
  as well, \<open>rmSync\<close> with \<open>recursive\<close> removes what is below the directory as well. What
  \<open>spawn\<close> writes inside a workspace is not listed: a name that points into another
  workspace is outside the model.\<close>

definition dirKey :: "string \<Rightarrow> string" where
  "dirKey p = (if length p > 1 \<and> last p = CHR ''/'' then butlast p else p)"

definition existsSync :: "string list \<Rightarrow> string \<Rightarrow> bool" where
  "existsSync disk p = (dirKey p = ''/'' \<or> dirKey p = ''.'' \<or> dirKey p \<in> set disk)"

fun prefixesOf :: "string list \<Rightarrow> string list list" where
  "prefixesOf [] = []"
| "prefixesOf (seg # segs) = [seg] # map ((#) seg) (prefixesOf segs)"

definition withParents :: "string \<Rightarrow> string list" where
  "withParents p =
     map (\<lambda>pre. (if p \<noteq> [] \<and> hd p = CHR ''/'' then ''/'' else []) @ joinSegments pre)
       (prefixesOf (filter (\<lambda>seg. seg \<noteq> []) (splitPath p)))"

definition mkdirRecursive :: "string list \<Rightarrow> string \<Rightarrow> string list" where
  "mkdirRecursive disk p =
     disk @ filter (\<lambda>dir. \<not> existsSync disk dir) (withParents (dirKey p))"

definition rmRecursive :: "string list \<Rightarrow> string \<Rightarrow> string list" where
  "rmRecursive disk p =
     filter (\<lambda>dir. dir \<noteq> dirKey p \<and> take (length (dirKey p) + 1) dir \<noteq> dirKey p @ ''/'')
       disk"

subsection \<open>Spawning and tearing down\<close>

record spawner =
  sp_basePath :: string
  sp_workspaces :: "(agentId \<times> string) list"

definition spawn ::
  "string \<Rightarrow> agentId \<Rightarrow> spawner \<Rightarrow> string list
     \<Rightarrow> error + (spawner \<times> string list \<times> agentId \<times> string)"
where
  "spawn name newId sp disk =
     (if name = [] then Inl SpawnRequiresName
      else
        (let workspace = pathJoin (sp_basePath sp) name
         in if existsSync disk workspace then Inl (WorkspaceAlreadyExists workspace)
            else Inr (sp\<lparr>sp_workspaces := AList.update newId workspace (sp_workspaces sp)\<rparr>,
                      mkdirRecursive disk workspace, newId, workspace)))"

text \<open>\<open>teardown\<close> as the supervisor calls it, with \<open>confirm: true\<close>.\<close>

definition teardown :: "agentId \<Rightarrow> spawner \<Rightarrow> string list \<Rightarrow> spawner \<times> string list" where
  "teardown aid sp disk =
     (case map_of (sp_workspaces sp) aid of
        None \<Rightarrow> (sp, disk)
      | Some workspace \<Rightarrow>
          if workspace = [] then (sp, disk)
          else if \<not> existsSync disk workspace
          then (sp\<lparr>sp_workspaces := AList.delete aid (sp_workspaces sp)\<rparr>, disk)
          else (sp\<lparr>sp_workspaces := AList.delete aid (sp_workspaces sp)\<rparr>,
                rmRecursive disk workspace))"

section \<open>Supervisor (supervisor.js)\<close>

record entry =
  e_daemon :: daemon
  e_restartCount :: nat
  e_firstRestartAt :: "int option"
  e_stableSince :: int
  e_restartScheduled :: bool

record promote_req =
  pr_agentId :: agentId
  pr_task :: "task option"

text \<open>What the supervisor makes observable: the events of its daemons, its structured
  log (the event tag of each \<open>_log\<close> call) and its own events.\<close>

datatype sup_event =
    FromDaemon devent
  | Log string
  | AgentDegraded agentId nat
  | SupervisorStopped

record supervisor =
  s_maxActive :: int
  s_role :: string
  s_channels :: "string list"
  s_tokenBudget :: int
  s_tokensUsed :: int
  s_heartbeatIntervalMs :: int
  s_persist :: bool
  s_spawner :: spawner
  s_disk :: "string list"
  s_healthMonitor :: health_monitor
  s_busConnected :: bool
  s_processTable :: "(agentId \<times> entry) list"
  s_promotionQueue :: "promote_req list"
  s_activeCount :: int
  s_promotionsPaused :: bool
  s_running :: bool
  s_restartTimers :: "(int \<times> agentId) list"
  s_trace :: "sup_event list"

text \<open>A step of the supervisor returns the new state, or the exception it throws
  together with the state the exception leaves behind.\<close>

type_synonym 'a result = "(error \<times> supervisor) + 'a"

definition logEvent :: "string \<Rightarrow> supervisor \<Rightarrow> supervisor" where
  "logEvent tag s = s\<lparr>s_trace := s_trace s @ [Log tag]\<rparr>"

definition spawnDaemon :: "int \<Rightarrow> agentId \<Rightarrow> string \<Rightarrow> supervisor \<Rightarrow> (supervisor \<times> daemon) result" where
  "spawnDaemon now newId name s =
     (case spawn name newId (s_spawner s) (s_disk s) of
        Inl err \<Rightarrow> Inl (err, s)
      | Inr (sp', disk', aid, workspace) \<Rightarrow>
          (let s1 = s\<lparr>s_spawner := sp', s_disk := disk'\<rparr>
           in case newDaemon \<lparr> dc_agentId = aid, dc_name = name, dc_workspace = workspace,
                               dc_role = Some (s_role s1), dc_channels = Some (s_channels s1),
                               dc_heartbeatIntervalMs = Some (s_heartbeatIntervalMs s1),
                               dc_command = None \<rparr> of
                Inl err \<Rightarrow> Inl (err, s1)
              | Inr d \<Rightarrow>
                  (let s2 = s1\<lparr>s_healthMonitor := register now aid None (s_healthMonitor s1)\<rparr>;
                       (d', evs) = start d;
                       s3 = s2\<lparr>s_processTable := AList.update aid
                                 \<lparr> e_daemon = d', e_restartCount = 0, e_firstRestartAt = None,
                                   e_stableSince = now, e_restartScheduled = False \<rparr>
                                 (s_processTable s2),
                               s_trace := s_trace s2 @ map FromDaemon evs\<rparr>
                   in Inr (s3, d'))))"

text \<open>\<open>_handleCrash\<close>, up to the call of \<open>setTimeout\<close>: the pending timer is recorded
  with its delay in milliseconds and the agent whose entry its callback captured.\<close>

definition handleCrash :: "int \<Rightarrow> agentId \<Rightarrow> supervisor \<Rightarrow> supervisor" where
  "handleCrash now aid s =
     (case map_of (s_processTable s) aid of
        None \<Rightarrow> s
      | Some entry \<Rightarrow>
          if e_restartScheduled entry then s
          else
            (let e1 = entry\<lparr>e_restartCount := e_restartCount entry + 1\<rparr>;
                 e2 = (if \<not> truthyNum (e_firstRestartAt e1)
                       then e1\<lparr>e_firstRestartAt := Some now\<rparr> else e1);
                 e3 = (if e_stableSince e2 \<noteq> 0 \<and> now - e_stableSince e2 > 5 * 60 * 1000
                       then e2\<lparr>e_restartCount := 1, e_firstRestartAt := Some now\<rparr> else e2)
             in if e_restartCount e3 > 5 \<and> now - toNumber (e_firstRestartAt e3) < 30 * 60 * 1000
                then s\<lparr>s_processTable := AList.update aid e3 (s_processTable s),
                       s_trace := s_trace s @
                         [Log ''agent_degraded'', AgentDegraded aid (e_restartCount e3)]\<rparr>
                else
                  (let delaySec = min (2 ^ e_restartCount e3) (300 :: int);
                       delayMs = delaySec * 1000;
                       e4 = e3\<lparr>e_restartScheduled := True\<rparr>
                   in s\<lparr>s_processTable := AList.update aid e4 (s_processTable s),
                         s_trace := s_trace s @ [Log ''agent_restart_scheduled''],
                         s_restartTimers := s_restartTimers s @ [(delayMs, aid)]\<rparr>)))"

text \<open>The listeners that \<open>_spawnDaemon\<close> registers on a daemon, run when the daemon
  emits. No listener is registered for \<open>error\<close>, so emitting it throws; an exception
  raised inside the daemon's method reaches the caller in the same way. The messages
  that the \<open>claim\<close>, \<open>done\<close> and \<open>fail\<close> listeners send to the bus leave the state
  untouched and are not recorded.\<close>

fun onDaemonEvent :: "int \<Rightarrow> devent \<Rightarrow> supervisor \<Rightarrow> supervisor result" where
  "onDaemonEvent now (Promoted aid p t) s =
     (let s1 = s\<lparr>s_activeCount := s_activeCount s + 1\<rparr>;
          s2 = (case p of
                  None \<Rightarrow> s1
                | Some n \<Rightarrow> if n = 0 then s1
                           else s1\<lparr>s_healthMonitor := updatePid aid (Some n) (s_healthMonitor s1)\<rparr>)
      in Inr (logEvent ''agent_promoted'' s2))"
| "onDaemonEvent now (Fail aid t msg) s = Inr (logEvent ''task_fail'' s)"
| "onDaemonEvent now (Crashed aid msg) s = Inr (handleCrash now aid s)"
| "onDaemonEvent now (ErrorEvent aid msg) s = Inl (UnhandledErrorEvent aid msg, s)"
| "onDaemonEvent now (TypeErrorRaised aid) s = Inl (TypeError aid, s)"
| "onDaemonEvent now ev s = Inr s"

fun emitAll :: "int \<Rightarrow> devent list \<Rightarrow> supervisor \<Rightarrow> supervisor result" where
  "emitAll now [] s = Inr s"
| "emitAll now (ev # evs) s =
     (case onDaemonEvent now ev (s\<lparr>s_trace := s_trace s @ [FromDaemon ev]\<rparr>) of
        Inl err \<Rightarrow> Inl err
      | Inr s1 \<Rightarrow> emitAll now evs s1)"

text \<open>\<open>entry.daemon.m(...)\<close> for the entry of \<open>aid\<close>, when there is one: the daemon in
  the table is updated and its events reach the listeners.\<close>

definition onDaemon ::
  "int \<Rightarrow> agentId \<Rightarrow> (daemon \<Rightarrow> daemon \<times> devent list) \<Rightarrow> supervisor \<Rightarrow> supervisor result"
where
  "onDaemon now aid m s =
     (case map_of (s_processTable s) aid of
        None \<Rightarrow> Inr s
      | Some entry \<Rightarrow>
          (let (d', evs) = m (e_daemon entry)
           in emitAll now evs
                (s\<lparr>s_processTable :=
                     AList.update aid (entry\<lparr>e_daemon := d'\<rparr>) (s_processTable s)\<rparr>)))"

text \<open>What \<open>child_process.spawn\<close> answers when a daemon is approved is the
  environment's, given per agent.\<close>

type_synonym spawn_env = "agentId \<Rightarrow> spawn_outcome"

definition handlePromoteRequest ::
  "spawn_env \<Rightarrow> int \<Rightarrow> promote_req \<Rightarrow> supervisor \<Rightarrow> supervisor result"
where
  "handlePromoteRequest env now req s =
     (if s_promotionsPaused s then
        onDaemon now (pr_agentId req)
          (denyPromotion (Some ''promotions paused (budget/quota)'')) s
      else if s_activeCount s \<ge> s_maxActive s then
        Inr (logEvent ''promotion_queued'' (s\<lparr>s_promotionQueue := s_promotionQueue s @ [req]\<rparr>))
      else if s_tokenBudget s > 0 \<and> s_tokensUsed s \<ge> s_tokenBudget s then
        (case onDaemon now (pr_agentId req) (denyPromotion (Some ''token budget exhausted''))
                (s\<lparr>s_promotionsPaused := True\<rparr>) of
           Inl err \<Rightarrow> Inl err
         | Inr s1 \<Rightarrow> Inr (logEvent ''promotions_paused'' s1))
      else
        onDaemon now (pr_agentId req)
          (approvePromotion (env (pr_agentId req)) (pr_task req)) s)"

text \<open>Every listener leaves the promotion queue alone, which is why the loop of
  \<open>_processPromotionQueue\<close> ends: each round removes the head.\<close>

lemma handleCrash_queue: "s_promotionQueue (handleCrash now aid s) = s_promotionQueue s"
  by (simp add: handleCrash_def Let_def split: option.splits)

lemma onDaemonEvent_queue:
  "onDaemonEvent now ev s = Inr s' \<Longrightarrow> s_promotionQueue s' = s_promotionQueue s"
  by (cases ev) (auto simp: Let_def logEvent_def handleCrash_queue split: option.splits if_splits)

lemma emitAll_queue:
  "emitAll now evs s = Inr s' \<Longrightarrow> s_promotionQueue s' = s_promotionQueue s"
proof (induction evs arbitrary: s)
  case Nil
  then show ?case by simp
next
  case (Cons ev evs)
  then show ?case
    by (auto split: sum.splits dest!: onDaemonEvent_queue)
qed

lemma onDaemon_queue:
  "onDaemon now aid m s = Inr s' \<Longrightarrow> s_promotionQueue s' = s_promotionQueue s"
  by (auto simp: onDaemon_def Let_def split: option.splits prod.splits dest!: emitAll_queue)

function processPromotionQueue :: "spawn_env \<Rightarrow> int \<Rightarrow> supervisor \<Rightarrow> supervisor result" where
  "processPromotionQueue env now s =
     (if s_promotionQueue s \<noteq> [] \<and> s_activeCount s < s_maxActive s \<and> \<not> s_promotionsPaused s
      then
        (let req = hd (s_promotionQueue s);
             s1 = s\<lparr>s_promotionQueue := tl (s_promotionQueue s)\<rparr>
         in case map_of (s_processTable s1) (pr_agentId req) of
              None \<Rightarrow> processPromotionQueue env now s1
            | Some entry \<Rightarrow>
                if d_state (e_daemon entry) = PROMOTING then
                  (case onDaemon now (pr_agentId req)
                          (approvePromotion (env (pr_agentId req)) (pr_task req)) s1 of
                     Inl err \<Rightarrow> Inl err
                   | Inr s2 \<Rightarrow> processPromotionQueue env now s2)
                else processPromotionQueue env now s1)
      else Inr s)"
  by pat_completeness auto
termination
proof (relation "measure (\<lambda>(env, now, s). length (s_promotionQueue s))")
  show "wf (measure (\<lambda>(env, now, s). length (s_promotionQueue s)))"
    by simp
next
  fix env :: spawn_env and now :: int and s :: supervisor and req s1
  assume "s_promotionQueue s \<noteq> [] \<and> s_activeCount s < s_maxActive s \<and> \<not> s_promotionsPaused s"
    and "s1 = s\<lparr>s_promotionQueue := tl (s_promotionQueue s)\<rparr>"
  then show "((env, now, s1), (env, now, s)) \<in> measure (\<lambda>(env, now, s). length (s_promotionQueue s))"
    by (cases "s_promotionQueue s") auto
next
  fix env :: spawn_env and now :: int and s :: supervisor and req s1 entry s2
  assume "s_promotionQueue s \<noteq> [] \<and> s_activeCount s < s_maxActive s \<and> \<not> s_promotionsPaused s"
    and "req = hd (s_promotionQueue s)"
    and "s1 = s\<lparr>s_promotionQueue := tl (s_promotionQueue s)\<rparr>"
    and "onDaemon now (pr_agentId req) (approvePromotion (env (pr_agentId req)) (pr_task req)) s1
           = Inr s2"
  then show "((env, now, s2), (env, now, s)) \<in> measure (\<lambda>(env, now, s). length (s_promotionQueue s))"
    by (cases "s_promotionQueue s") (auto dest!: onDaemon_queue)
next
  fix env :: spawn_env and now :: int and s :: supervisor and req s1
  assume "s_promotionQueue s \<noteq> [] \<and> s_activeCount s < s_maxActive s \<and> \<not> s_promotionsPaused s"
    and "s1 = s\<lparr>s_promotionQueue := tl (s_promotionQueue s)\<rparr>"
  then show "((env, now, s1), (env, now, s)) \<in> measure (\<lambda>(env, now, s). length (s_promotionQueue s))"
    by (cases "s_promotionQueue s") auto
qed

text \<open>The callback that \<open>_handleCrash\<close> hands to \<open>setTimeout\<close>. Its free variables
  are the parameters \<open>aid\<close> and \<open>entry\<close>: the agent and the entry object that
  \<open>_handleCrash\<close> looked up. While the entry is in the process table, \<open>entry\<close> is the
  table's value for \<open>aid\<close>.\<close>

definition restartCallback ::
  "int \<Rightarrow> agentId \<Rightarrow> agentId \<Rightarrow> entry \<Rightarrow> supervisor \<Rightarrow> supervisor result"
where
  "restartCallback now newId aid entry s =
     (if \<not> s_running s then Inr s
      else
        (let (d1, evs) = stop (e_daemon entry);
             s1 = s\<lparr>s_trace := s_trace s @ map FromDaemon evs\<rparr>;
             s2 = s1\<lparr>s_healthMonitor := unregister aid (s_healthMonitor s1)\<rparr>;
             s3 = (if d_state d1 = ACTIVE
                   then s2\<lparr>s_activeCount := max 0 (s_activeCount s2 - 1)\<rparr> else s2);
             s4 = s3\<lparr>s_processTable := AList.delete aid (s_processTable s3)\<rparr>
         in case spawnDaemon now newId (d_name d1) s4 of
              Inl err \<Rightarrow> Inl err
            | Inr (s5, replacement) \<Rightarrow>
                (let s6 = (case map_of (s_processTable s5) (d_agentId replacement) of
                             None \<Rightarrow> s5
                           | Some newEntry \<Rightarrow>
                               s5\<lparr>s_processTable := AList.update (d_agentId replacement)
                                    (newEntry\<lparr>e_restartCount := e_restartCount entry,
                                              e_firstRestartAt := e_firstRestartAt entry,
                                              e_stableSince := now\<rparr>)
                                    (s_processTable s5)\<rparr>)
                 in Inr (logEvent ''agent_restarted'' s6))))"

text \<open>\<open>Supervisor.stop\<close>. The bus is taken to disconnect without an error; the
  pidfile that is released is outside the state.\<close>

fun stopDaemons :: "(agentId \<times> entry) list \<Rightarrow> supervisor \<Rightarrow> supervisor" where
  "stopDaemons [] s = s"
| "stopDaemons ((aid, entry) # rest) s =
     (let (d1, evs) = stop (e_daemon entry)
      in stopDaemons rest
           (s\<lparr>s_processTable := AList.update aid (entry\<lparr>e_daemon := d1\<rparr>) (s_processTable s),
              s_trace := s_trace s @ map FromDaemon evs,
              s_healthMonitor := unregister aid (s_healthMonitor s)\<rparr>))"

fun teardownAll :: "agentId list \<Rightarrow> supervisor \<Rightarrow> supervisor" where
  "teardownAll [] s = s"
| "teardownAll (aid # rest) s =
     (let (sp', disk') = teardown aid (s_spawner s) (s_disk s)
      in teardownAll rest (s\<lparr>s_spawner := sp', s_disk := disk'\<rparr>))"

definition supervisor_stop :: "supervisor \<Rightarrow> supervisor" where
  "supervisor_stop s =
     (if \<not> s_running s then s
      else
        (let s1 = logEvent ''swarm_stopping'' s;
             s2 = s1\<lparr>s_running := False,
                     s_healthMonitor := (s_healthMonitor s1)\<lparr>hm_checkTimer := False\<rparr>\<rparr>;
             s3 = (if s_busConnected s2
                   then logEvent ''bus_disconnected'' (s2\<lparr>s_busConnected := False\<rparr>) else s2);
             s4 = stopDaemons (s_processTable s3) s3;
             s5 = (if \<not> s_persist s4 then teardownAll (map fst (s_processTable s4)) s4 else s4);
             s6 = s5\<lparr>s_processTable := [], s_promotionQueue := [], s_activeCount := 0\<rparr>;
             s7 = logEvent ''swarm_stopped'' s6
         in s7\<lparr>s_trace := s_trace s7 @ [SupervisorStopped]\<rparr>))"

section \<open>Supervisor: scaling\<close>

record scale_result =
  sr_from :: int
  sr_to :: int
  sr_added :: int
  sr_removed :: int

text \<open>\<open>String(idx).padStart(3, '0')\<close>.\<close>

fun showNat :: "nat \<Rightarrow> string" where
  "showNat n = (if n < 10 then [''0123456789'' ! n]
                else showNat (n div 10) @ [''0123456789'' ! (n mod 10)])"

definition padStart3 :: "string \<Rightarrow> string" where
  "padStart3 str = replicate (3 - length str) (CHR ''0'') @ str"

definition daemonName :: "string \<Rightarrow> nat \<Rightarrow> string" where
  "daemonName role idx = ''swarm-'' @ role @ ''-'' @ padStart3 (showNat idx)"

text \<open>The loop of the scale-up branch; \<open>ids\<close> gives the identity generated for each
  index.\<close>

fun scaleUpLoop :: "int \<Rightarrow> (nat \<Rightarrow> agentId) \<Rightarrow> nat list \<Rightarrow> supervisor \<Rightarrow> supervisor result" where
  "scaleUpLoop now ids [] s = Inr s"
| "scaleUpLoop now ids (idx # rest) s =
     (case spawnDaemon now (ids idx) (daemonName (s_role s) idx) s of
        Inl err \<Rightarrow> Inl err
      | Inr (s1, d) \<Rightarrow> scaleUpLoop now ids rest s1)"

text \<open>The loop of the scale-down branch over the sorted candidates.\<close>

definition removeDaemon :: "agentId \<Rightarrow> entry \<Rightarrow> supervisor \<Rightarrow> supervisor" where
  "removeDaemon aid entry s =
     (let (d1, evs) = stop (e_daemon entry);
          s1 = s\<lparr>s_trace := s_trace s @ map FromDaemon evs,
                  s_healthMonitor := unregister aid (s_healthMonitor s)\<rparr>;
          s2 = (if \<not> s_persist s1
                then (let (sp', disk') = teardown aid (s_spawner s1) (s_disk s1)
                      in s1\<lparr>s_spawner := sp', s_disk := disk'\<rparr>)
                else s1)
      in s2\<lparr>s_processTable := AList.delete aid (s_processTable s2)\<rparr>)"

fun scaleDownLoop :: "int \<Rightarrow> (agentId \<times> entry) list \<Rightarrow> int \<Rightarrow> supervisor \<Rightarrow> supervisor \<times> int" where
  "scaleDownLoop delta [] removed s = (s, removed)"
| "scaleDownLoop delta ((aid, entry) # rest) removed s =
     (if removed \<ge> delta then (s, removed)
      else scaleDownLoop delta rest (removed + 1) (removeDaemon aid entry s))"

definition candidates :: "supervisor \<Rightarrow> (agentId \<times> entry) list" where
  "candidates s =
     sort_key (\<lambda>(aid, entry). e_stableSince entry)
       (filter (\<lambda>(aid, entry). d_state (e_daemon entry) = IDLE) (s_processTable s))"

definition scale ::
  "int \<Rightarrow> (nat \<Rightarrow> agentId) \<Rightarrow> int \<Rightarrow> supervisor \<Rightarrow> (supervisor \<times> scale_result) result"
where
  "scale now ids target s =
     (if \<not> s_running s then Inl (SupervisorNotRunning, s)
      else
        (let current = int (length (s_processTable s))
         in if target = 0 then
              Inr (supervisor_stop s,
                   \<lparr>sr_from = current, sr_to = 0, sr_added = 0, sr_removed = current\<rparr>)
            else if target > current then
              (let delta = target - current
               in case scaleUpLoop now ids
                         (map (\<lambda>i. nat current + i) [0 ..< nat delta]) s of
                    Inl err \<Rightarrow> Inl err
                  | Inr s1 \<Rightarrow>
                      Inr (logEvent ''scaled_up'' s1,
                           \<lparr>sr_from = current, sr_to = target, sr_added = delta, sr_removed = 0\<rparr>))
            else if target < current then
              (let delta = current - target;
                   (s1, removed) = scaleDownLoop delta (candidates s) 0 s
               in Inr (logEvent ''scaled_down'' s1,
                       \<lparr>sr_from = current, sr_to = current - removed, sr_added = 0,
                        sr_removed = removed\<rparr>))
            else Inr (s, \<lparr>sr_from = current, sr_to = current, sr_added = 0, sr_removed = 0\<rparr>)))"

section \<open>Concrete states\<close>

text \<open>Inputs at which the theorems below are evaluated.\<close>

definition idleDaemon :: daemon where
  "idleDaemon = \<lparr> d_agentId = ''a1b2c3d4'', d_name = ''swarm-builder-000'',
     d_workspace = ''/ws/swarm-builder-000'', d_role = ''builder'', d_channels = [''#agents''],
     d_heartbeatIntervalMs = 30000, d_command = ''claude'', d_state = IDLE,
     d_currentTask = None, d_claudeProcess = None, d_heartbeatTimer = True \<rparr>"

definition noStats :: process_stats where
  "noStats p = None"

definition deadRecord :: agent_health where
  "deadRecord = \<lparr> ah_lastSeen = 1000, ah_status = Dead, ah_consecutiveMisses = 5,
     ah_pid = None, ah_memoryMb = None, ah_cpuPct = None, ah_uptimeSeconds = 0,
     ah_registeredAt = 1000 \<rparr>"

definition freshRecord :: agent_health where
  "freshRecord = \<lparr> ah_lastSeen = 1040, ah_status = Alive, ah_consecutiveMisses = 0,
     ah_pid = None, ah_memoryMb = None, ah_cpuPct = None, ah_uptimeSeconds = 0,
     ah_registeredAt = 1000 \<rparr>"

text \<open>A monitor with a heartbeat interval of 10 ms and a threshold of 3 misses.\<close>

definition monitor1 :: health_monitor where
  "monitor1 = (newHealthMonitor \<lparr> ho_heartbeatIntervalMs = Some 10, ho_missThreshold = Some 3,
      ho_checkIntervalMs = None, ho_memoryLimitMb = None, ho_cpuLimitPct = None \<rparr>)
      \<lparr> hm_agents := [(''agent-001'', deadRecord), (''agent-002'', freshRecord)] \<rparr>"

text \<open>The \<open>unresponsive\<close> alerts of one agent among the alerts of a check.\<close>

definition isUnresponsiveFor :: "agentId \<Rightarrow> alert \<Rightarrow> bool" where
  "isUnresponsiveFor aid a = (al_agentId a = aid \<and> al_reason a = UnresponsiveAlert)"

text \<open>A probe with the constructor's defaults, one with a budget of 100 tokens, and one
  in duration mode; then records of a task: one with an explicit count, one with 80
  characters of output, one of a task that ran for 1100 ms and printed nothing.\<close>

definition noConfig :: quota_config where
  "noConfig = \<lparr> qc_budget = None, qc_estimationMethod = None, qc_charsPerToken = None,
     qc_tokensPerSecond = None, qc_warningThreshold = None \<rparr>"

definition defaultProbe :: quota_probe where
  "defaultProbe = newQuotaProbe noConfig"


definition durationProbe :: quota_probe where
  "durationProbe = newQuotaProbe (noConfig\<lparr>qc_estimationMethod := Some ''duration''\<rparr>)"

definition explicitResult :: usage_result where
  "explicitResult = \<lparr> r_agentId = Some ''agent-1'', r_output = Some ''abcd'',
     r_durationMs = None, r_tokens = Some 1234 \<rparr>"

definition outputOnlyResult :: usage_result where
  "outputOnlyResult = \<lparr> r_agentId = Some ''a'', r_output = Some (replicate 80 (CHR ''x'')),
     r_durationMs = None, r_tokens = None \<rparr>"

definition durationResult :: usage_result where
  "durationResult = \<lparr> r_agentId = Some ''a'', r_output = Some [], r_durationMs = Some 1100,
     r_tokens = None \<rparr>"


text \<open>The tokens of a record in the words of C8 as corrected below: an explicit
  positive count first, then the estimate of the mode, then the output estimate, then 0.
  The estimates are the formulas of the specification in the arithmetic of doubles:
  \<open>divide64\<close>, \<open>times64\<close> and \<open>plus64\<close> are the quotient, the product and the sum of two
  doubles.\<close>

definition divide64 :: "rat \<Rightarrow> rat \<Rightarrow> rat" where
  "divide64 x y = fl64 (x / y)"

definition times64 :: "rat \<Rightarrow> rat \<Rightarrow> rat" where
  "times64 x y = fl64 (x * y)"

definition plus64 :: "rat \<Rightarrow> rat \<Rightarrow> rat" where
  "plus64 x y = fl64 (x + y)"

definition outputEstimate :: "quota_probe \<Rightarrow> usage_result \<Rightarrow> rat" where
  "outputEstimate probe result =
     of_int \<lceil>divide64 (outputLength result) (qp_charsPerToken probe)\<rceil>"

definition durationEstimate :: "quota_probe \<Rightarrow> usage_result \<Rightarrow> rat" where
  "durationEstimate probe result =
     of_int \<lceil>times64 (divide64 (orDefault (r_durationMs result) 0) 1000)
                       (qp_tokensPerSecond probe)\<rceil>"

text \<open>The duration estimate of the specification read over the rationals, without
  rounding.\<close>

definition exactDurationEstimate :: "quota_probe \<Rightarrow> usage_result \<Rightarrow> rat" where
  "exactDurationEstimate probe result =
     of_int \<lceil>(orDefault (r_durationMs result) 0 / 1000) * qp_tokensPerSecond probe\<rceil>"

definition fallbackEstimate :: "quota_probe \<Rightarrow> usage_result \<Rightarrow> rat" where
  "fallbackEstimate probe result =
     (if truthyStr (r_output result) then outputEstimate probe result else 0)"

definition amended_tokens :: "quota_probe \<Rightarrow> usage_result \<Rightarrow> rat" where
  "amended_tokens probe result =
     (case r_tokens result of
        Some t \<Rightarrow> if t > 0 then t
                  else if qp_estimationMethod probe = ''duration'' \<and> truthyRat (r_durationMs result)
                  then durationEstimate probe result
                  else fallbackEstimate probe result
      | None \<Rightarrow> if qp_estimationMethod probe = ''duration'' \<and> truthyRat (r_durationMs result)
                then durationEstimate probe result
                else fallbackEstimate probe result)"


text \<open>A running fleet of four daemons under \<open>/ws\<close> with \<open>maxActive = 2\<close>: \<open>aaaaaaaa\<close>
  is active, \<open>bbbbbbbb\<close> and \<open>cccccccc\<close> are idle (the second started earlier) and
  \<open>dddddddd\<close> waits for a promotion.\<close>

definition buildTask :: task where
  "buildTask = \<lparr> t_role = Some ''builder'', t_component = Some ''auth'',
     t_prompt = Some ''build auth'', t_id = None \<rparr>"

definition mkDaemon :: "agentId \<Rightarrow> string \<Rightarrow> DaemonState \<Rightarrow> daemon" where
  "mkDaemon aid name st = \<lparr> d_agentId = aid, d_name = name, d_workspace = pathJoin ''/ws'' name,
     d_role = ''builder'', d_channels = [''#agents''], d_heartbeatIntervalMs = 30000,
     d_command = ''claude'', d_state = st,
     d_currentTask = (if st = IDLE then None else Some buildTask),
     d_claudeProcess = (if st = ACTIVE then Some \<lparr>c_pid = Some 4242\<rparr> else None),
     d_heartbeatTimer = (st = IDLE \<or> st = PROMOTING) \<rparr>"

definition mkEntry :: "daemon \<Rightarrow> int \<Rightarrow> entry" where
  "mkEntry d since = \<lparr> e_daemon = d, e_restartCount = 0, e_firstRestartAt = None,
     e_stableSince = since, e_restartScheduled = False \<rparr>"

definition entryA :: entry where
  "entryA = mkEntry (mkDaemon ''aaaaaaaa'' ''swarm-builder-000'' ACTIVE) 1000"

definition entryB :: entry where
  "entryB = mkEntry (mkDaemon ''bbbbbbbb'' ''swarm-builder-001'' IDLE) 3000"

definition entryC :: entry where
  "entryC = mkEntry (mkDaemon ''cccccccc'' ''swarm-builder-002'' IDLE) 2000"

definition entryD :: entry where
  "entryD = mkEntry (mkDaemon ''dddddddd'' ''swarm-builder-003'' PROMOTING) 1500"

definition fleetMonitor :: health_monitor where
  "fleetMonitor =
     register 1500 ''dddddddd'' None
       (register 2000 ''cccccccc'' None
          (register 3000 ''bbbbbbbb'' None
             (register 1000 ''aaaaaaaa'' None
                (newHealthMonitor \<lparr> ho_heartbeatIntervalMs = Some 30000,
                   ho_missThreshold = Some 3, ho_checkIntervalMs = None,
                   ho_memoryLimitMb = None, ho_cpuLimitPct = None \<rparr>))))"

definition fleet :: supervisor where
  "fleet = \<lparr> s_maxActive = 2, s_role = ''builder'', s_channels = [''#agents''],
     s_tokenBudget = 0, s_tokensUsed = 0, s_heartbeatIntervalMs = 30000, s_persist = False,
     s_spawner = \<lparr> sp_basePath = ''/ws'',
       sp_workspaces = [(''aaaaaaaa'', ''/ws/swarm-builder-000''),
                        (''bbbbbbbb'', ''/ws/swarm-builder-001''),
                        (''cccccccc'', ''/ws/swarm-builder-002''),
                        (''dddddddd'', ''/ws/swarm-builder-003'')] \<rparr>,
     s_disk = [''/ws/swarm-builder-000'', ''/ws/swarm-builder-001'',
               ''/ws/swarm-builder-002'', ''/ws/swarm-builder-003''],
     s_healthMonitor = fleetMonitor,
     s_busConnected = True,
     s_processTable = [(''aaaaaaaa'', entryA), (''bbbbbbbb'', entryB),
                       (''cccccccc'', entryC), (''dddddddd'', entryD)],
     s_promotionQueue = [],
     s_activeCount = 1,
     s_promotionsPaused = False,
     s_running = True,
     s_restartTimers = [],
     s_trace = [] \<rparr>"

definition requestD :: promote_req where
  "requestD = \<lparr> pr_agentId = ''dddddddd'', pr_task = Some buildTask \<rparr>"

definition requestB :: promote_req where
  "requestB = \<lparr> pr_agentId = ''bbbbbbbb'', pr_task = Some buildTask \<rparr>"

text \<open>An environment in which every executor starts, with pid 5000.\<close>

definition spawnsFine :: spawn_env where
  "spawnsFine aid = Spawned \<lparr>c_pid = Some 5000\<rparr>"

text \<open>The events a step added to the trace.\<close>

definition newEvents :: "supervisor \<Rightarrow> supervisor \<Rightarrow> sup_event list" where
  "newEvents s s' = drop (length (s_trace s)) (s_trace s')"

text \<open>The fleet when \<open>dddddddd\<close> has crashed five times since time 2000 and was last
  restarted at time 50000.\<close>

definition burstEntry :: entry where
  "burstEntry = entryD\<lparr>e_restartCount := 5, e_firstRestartAt := Some 2000,
     e_stableSince := 50000\<rparr>"

definition burstFleet :: supervisor where
  "burstFleet = fleet\<lparr>s_processTable := AList.update ''dddddddd'' burstEntry (s_processTable fleet)\<rparr>"

text \<open>The events that \<open>_handleCrash\<close> itself adds to the trace.\<close>

definition isLogOrDegraded :: "sup_event \<Rightarrow> bool" where
  "isLogOrDegraded ev = (case ev of Log _ \<Rightarrow> True | AgentDegraded _ _ \<Rightarrow> True | _ \<Rightarrow> False)"

text \<open>The run of the promotion-queue processor in the words of the specification
  (C5), as a relation between the state before and the state after: the run is over when
  the queue is empty, no slot is free or promotions are paused; otherwise the head is
  dequeued, and either its daemon is still \<open>promoting\<close> and is approved, or the request
  is discarded; then the run goes on with the next head.\<close>

inductive drain :: "spawn_env \<Rightarrow> int \<Rightarrow> supervisor \<Rightarrow> supervisor \<Rightarrow> bool" for env now where
  drain_stop:
    "s_promotionQueue s = [] \<or> \<not> s_activeCount s < s_maxActive s \<or> s_promotionsPaused s
     \<Longrightarrow> drain env now s s"
| drain_approve:
    "\<lbrakk>s_promotionQueue s = req # rest; s_activeCount s < s_maxActive s;
      \<not> s_promotionsPaused s;
      map_of (s_processTable s) (pr_agentId req) = Some entry;
      d_state (e_daemon entry) = PROMOTING;
      onDaemon now (pr_agentId req) (approvePromotion (env (pr_agentId req)) (pr_task req))
        (s\<lparr>s_promotionQueue := rest\<rparr>) = Inr s1;
      drain env now s1 s'\<rbrakk>
     \<Longrightarrow> drain env now s s'"
| drain_discard:
    "\<lbrakk>s_promotionQueue s = req # rest; s_activeCount s < s_maxActive s;
      \<not> s_promotionsPaused s;
      \<forall>entry. map_of (s_processTable s) (pr_agentId req) = Some entry
                \<longrightarrow> d_state (e_daemon entry) \<noteq> PROMOTING;
      drain env now (s\<lparr>s_promotionQueue := rest\<rparr>) s'\<rbrakk>
     \<Longrightarrow> drain env now s s'"

text \<open>The fleet with two queued requests, the first of them stale (\<open>bbbbbbbb\<close> is idle
  again), and the state after the queue was processed: the stale request is gone and
  \<open>dddddddd\<close> runs its executor.\<close>

definition queuedFleet :: supervisor where
  "queuedFleet = fleet\<lparr>s_promotionQueue := [requestB, requestD]\<rparr>"

definition drainedFleet :: supervisor where
  "drainedFleet = fleet\<lparr>
     s_healthMonitor := updatePid ''dddddddd'' (Some 5000) fleetMonitor,
     s_processTable := [(''aaaaaaaa'', entryA), (''bbbbbbbb'', entryB), (''cccccccc'', entryC),
       (''dddddddd'', entryD\<lparr>e_daemon := (mkDaemon ''dddddddd'' ''swarm-builder-003'' ACTIVE)
          \<lparr>d_claudeProcess := Some \<lparr>c_pid = Some 5000\<rparr>\<rparr>\<rparr>)],
     s_promotionQueue := [],
     s_activeCount := 2,
     s_trace := [FromDaemon (Promoted ''dddddddd'' (Some 5000) (Some buildTask)),
                 Log ''agent_promoted''] \<rparr>"

text \<open>The fleet after the health monitor reported \<open>aaaaaaaa\<close> as unresponsive at time
  100000 while its executor was running: \<open>_handleCrash\<close> has scheduled a restart. The
  timer fires at time 102000, when the identity generated for the replacement is
  \<open>eeeeeeee\<close>.\<close>

definition crashedFleet :: supervisor where
  "crashedFleet = handleCrash 100000 ''aaaaaaaa'' fleet"

definition crashedEntry :: entry where
  "crashedEntry = entryA\<lparr>e_restartCount := 1, e_firstRestartAt := Some 100000,
     e_restartScheduled := True\<rparr>"

definition entryOf :: "agentId \<Rightarrow> supervisor \<Rightarrow> entry option" where
  "entryOf aid s = map_of (s_processTable s) aid"

definition fleetIds :: "nat \<Rightarrow> agentId" where
  "fleetIds n = ''id'' @ showNat n"

section \<open>Daemon: denying a promotion\<close>

text \<open>
  C10. For a daemon whose state is not \<open>promoting\<close>, \<open>denyPromotion(reason)\<close> does
  nothing: the daemon is returned as it was, so \<open>state\<close> and \<open>currentTask\<close> are
  unchanged, and no event is emitted, in particular no \<open>unclaim\<close>.
\<close>

theorem denyPromotion_noop:
  "d_state d \<noteq> PROMOTING \<Longrightarrow> denyPromotion reason d = (d, [])"
  by (simp add: denyPromotion_def)

theorem denyPromotion_noop_witness:
  "d_state idleDaemon \<noteq> PROMOTING \<and>
   denyPromotion (Some ''token budget exhausted'') idleDaemon = (idleDaemon, [])"
  using denyPromotion_noop [of idleDaemon "Some ''token budget exhausted''"]
  by (simp add: idleDaemon_def)

section \<open>Health monitor: heartbeats and checks\<close>

text \<open>
  C4. After \<open>heartbeat(agentId)\<close> the record of a registered agent has status
  \<open>alive\<close> and \<open>consecutiveMisses = 0\<close> (and \<open>lastSeen\<close> is the time of the call); its
  other fields are kept.
\<close>

theorem heartbeat_resets:
  "map_of (hm_agents hm) aid = Some agent \<Longrightarrow>
   (\<exists>agent'. map_of (hm_agents (heartbeat now aid hm)) aid = Some agent' \<and>
      ah_status agent' = Alive \<and> ah_consecutiveMisses agent' = 0 \<and>
      agent' = agent\<lparr>ah_lastSeen := now, ah_consecutiveMisses := 0, ah_status := Alive\<rparr>)"
  by (simp add: heartbeat_def update_conv')

theorem heartbeat_resets_witness:
  "map_of (hm_agents monitor1) ''agent-001'' = Some deadRecord \<and>
   map_option ah_status (map_of (hm_agents (heartbeat 1050 ''agent-001'' monitor1)) ''agent-001'')
     = Some Alive \<and>
   map_option ah_consecutiveMisses
     (map_of (hm_agents (heartbeat 1050 ''agent-001'' monitor1)) ''agent-001'') = Some 0"
proof -
  have m: "map_of (hm_agents monitor1) ''agent-001'' = Some deadRecord"
    by (simp add: monitor1_def)
  show ?thesis
    using heartbeat_resets [OF m, of 1050] m by auto
qed

text \<open>The alerts of a check carry the id of the record they were raised for, so with
  one record per agent the alerts of an agent are those of its own record.\<close>

lemma checkAgent_alert_ids:
  "a \<in> set (snd (checkAgent hm stats now aid agent)) \<Longrightarrow> al_agentId a = aid"
  by (auto simp: checkAgent_def Let_def split: if_splits option.splits prod.splits)

lemma checkLoop_map_of:
  "map_of (fst (checkLoop hm stats now xs)) k
     = map_option (\<lambda>a. fst (checkAgent hm stats now k a)) (map_of xs k)"
  by (induction xs) (auto simp: Let_def case_prod_beta)

lemma checkLoop_alerts_other:
  "k \<notin> fst ` set xs \<Longrightarrow> filter (\<lambda>a. al_agentId a = k) (snd (checkLoop hm stats now xs)) = []"
proof (induction xs)
  case Nil
  then show ?case by simp
next
  case (Cons x xs)
  obtain aid agent where x: "x = (aid, agent)" by (cases x)
  have "aid \<noteq> k" using Cons.prems x by auto
  then have "filter (\<lambda>a. al_agentId a = k) (snd (checkAgent hm stats now aid agent)) = []"
    by (auto simp: filter_empty_conv dest: checkAgent_alert_ids)
  moreover have "filter (\<lambda>a. al_agentId a = k) (snd (checkLoop hm stats now xs)) = []"
    using Cons by auto
  ultimately show ?case using x by (simp add: Let_def case_prod_beta)
qed

lemma checkLoop_alerts:
  "distinct (map fst xs) \<Longrightarrow> map_of xs k = Some agent \<Longrightarrow>
     filter (\<lambda>a. al_agentId a = k) (snd (checkLoop hm stats now xs))
       = snd (checkAgent hm stats now k agent)"
proof (induction xs)
  case Nil
  then show ?case by simp
next
  case (Cons x xs)
  obtain aid a0 where x: "x = (aid, a0)" by (cases x)
  show ?case
  proof (cases "aid = k")
    case True
    then have "a0 = agent" using Cons.prems x by simp
    moreover have "k \<notin> fst ` set xs" using Cons.prems x True by auto
    then have "filter (\<lambda>a. al_agentId a = k) (snd (checkLoop hm stats now xs)) = []"
      by (rule checkLoop_alerts_other)
    moreover have "filter (\<lambda>a. al_agentId a = k) (snd (checkAgent hm stats now k agent))
        = snd (checkAgent hm stats now k agent)"
      by (auto simp: filter_id_conv dest: checkAgent_alert_ids)
    ultimately show ?thesis using x True by (simp add: Let_def case_prod_beta)
  next
    case False
    then have "filter (\<lambda>a. al_agentId a = k) (snd (checkAgent hm stats now aid a0)) = []"
      by (auto simp: filter_empty_conv dest: checkAgent_alert_ids)
    moreover have "filter (\<lambda>a. al_agentId a = k) (snd (checkLoop hm stats now xs))
        = snd (checkAgent hm stats now k agent)"
      using Cons False x by auto
    ultimately show ?thesis using x by (simp add: Let_def case_prod_beta)
  qed
qed

lemma checkAgent_heartbeat:
  "(let agent' = fst (checkAgent hm stats now aid agent);
        unresponsive = filter (isUnresponsiveFor aid) (snd (checkAgent hm stats now aid agent));
        missed = (now - ah_lastSeen agent) div hm_heartbeatIntervalMs hm
    in if now - ah_lastSeen agent > hm_heartbeatIntervalMs hm then
         ah_consecutiveMisses agent' = missed \<and>
         (if missed \<ge> hm_missThreshold hm \<and> ah_status agent \<noteq> Dead
          then ah_status agent' = Dead \<and> length unresponsive = 1
          else if ah_status agent \<noteq> Dead
          then ah_status agent' = Unresponsive \<and> unresponsive = []
          else ah_status agent' = Dead \<and> unresponsive = [])
       else ah_status agent' = ah_status agent \<and>
            ah_consecutiveMisses agent' = ah_consecutiveMisses agent \<and> unresponsive = [])"
  by (auto simp: checkAgent_def Let_def isUnresponsiveFor_def split: option.splits prod.splits)

text \<open>
  C3, as the code has it. For a registered record and a call of \<open>check()\<close> at time
  \<open>now\<close>, on a monitor whose heartbeat interval is not \<open>0\<close> (the constructor never
  stores \<open>0\<close>): when \<open>now - lastSeen\<close> exceeds the heartbeat interval, the monitor stores
  \<open>missed = \<lfloor>(now - lastSeen) / heartbeatInterval\<rfloor>\<close> in \<open>consecutiveMisses\<close>; if
  \<open>missed \<ge> missThreshold\<close> and the record is not dead yet, the status becomes \<open>dead\<close>
  and the check emits exactly one \<open>unresponsive\<close> alert for the agent; otherwise a record
  that is not dead becomes \<open>unresponsive\<close> with no alert, and a dead record stays dead
  with no alert. When \<open>now - lastSeen\<close> does not exceed the interval, status and miss
  count are left as they are and no \<open>unresponsive\<close> alert is emitted.
\<close>

theorem check_heartbeat_freshness:
  assumes "distinct (map fst (hm_agents hm))" and "map_of (hm_agents hm) aid = Some agent"
      and "hm_heartbeatIntervalMs hm \<noteq> 0"
  shows "\<exists>agent'. map_of (hm_agents (fst (check stats now hm))) aid = Some agent' \<and>
    (let unresponsive = filter (isUnresponsiveFor aid) (snd (check stats now hm));
         missed = (now - ah_lastSeen agent) div hm_heartbeatIntervalMs hm
     in if now - ah_lastSeen agent > hm_heartbeatIntervalMs hm then
          ah_consecutiveMisses agent' = missed \<and>
          (if missed \<ge> hm_missThreshold hm \<and> ah_status agent \<noteq> Dead
           then ah_status agent' = Dead \<and> length unresponsive = 1
           else if ah_status agent \<noteq> Dead
           then ah_status agent' = Unresponsive \<and> unresponsive = []
           else ah_status agent' = Dead \<and> unresponsive = [])
        else ah_status agent' = ah_status agent \<and>
             ah_consecutiveMisses agent' = ah_consecutiveMisses agent \<and> unresponsive = [])"
proof -
  have rec: "map_of (hm_agents (fst (check stats now hm))) aid
               = Some (fst (checkAgent hm stats now aid agent))"
    using assms(2) checkLoop_map_of [of hm stats now "hm_agents hm" aid]
    by (simp add: check_def case_prod_beta)
  have "filter (isUnresponsiveFor aid) (snd (check stats now hm))
          = filter (isUnresponsiveFor aid)
              (filter (\<lambda>a. al_agentId a = aid) (snd (checkLoop hm stats now (hm_agents hm))))"
    by (auto simp: check_def isUnresponsiveFor_def case_prod_beta intro: filter_cong)
  then have al: "filter (isUnresponsiveFor aid) (snd (check stats now hm))
          = filter (isUnresponsiveFor aid) (snd (checkAgent hm stats now aid agent))"
    using checkLoop_alerts [OF assms(1,2)] by simp
  show ?thesis
    using checkAgent_heartbeat [of hm stats now aid agent] rec al
    by (simp add: Let_def)
qed

theorem check_heartbeat_freshness_witness:
  "distinct (map fst (hm_agents monitor1)) \<and>
   map_of (hm_agents monitor1) ''agent-002'' = Some freshRecord \<and>
   hm_heartbeatIntervalMs monitor1 \<noteq> 0 \<and>
   map_option ah_status (map_of (hm_agents (fst (check noStats 1075 monitor1))) ''agent-002'')
     = Some Dead \<and>
   length (filter (isUnresponsiveFor ''agent-002'') (snd (check noStats 1075 monitor1))) = 1"
proof -
  have d: "distinct (map fst (hm_agents monitor1))"
    by (simp add: monitor1_def)
  have m: "map_of (hm_agents monitor1) ''agent-002'' = Some freshRecord"
    by (simp add: monitor1_def)
  have h: "hm_heartbeatIntervalMs monitor1 \<noteq> 0"
    by (simp add: monitor1_def newHealthMonitor_def truthyNum_def toNumber_def)
  show ?thesis
    using check_heartbeat_freshness [OF d m h, of noStats 1075] d m
    by (auto simp: Let_def monitor1_def freshRecord_def newHealthMonitor_def truthyNum_def
        toNumber_def split: if_splits)
qed

text \<open>
  The claim as stated fails twice at \<open>monitor1\<close>, checked at time 1050. The record of
  \<open>agent-001\<close> is dead and has missed 5 intervals: the claim's second case (one miss or
  more) would make it \<open>unresponsive\<close>, the code leaves it dead. The record of
  \<open>agent-002\<close> was last seen exactly one interval ago: \<open>missed = 1\<close> is below the
  threshold, the claim would make it \<open>unresponsive\<close>, the code leaves it alive.
\<close>

theorem check_claim_counterexample:
  "(1050 - ah_lastSeen deadRecord) div hm_heartbeatIntervalMs monitor1 \<ge> 1 \<and>
   ah_status deadRecord = Dead \<and>
   map_option ah_status (map_of (hm_agents (fst (check noStats 1050 monitor1))) ''agent-001'')
     = Some Dead \<and>
   (1050 - ah_lastSeen freshRecord) div hm_heartbeatIntervalMs monitor1 = 1 \<and>
   1 < hm_missThreshold monitor1 \<and>
   map_option ah_status (map_of (hm_agents (fst (check noStats 1050 monitor1))) ''agent-002'')
     = Some Alive"
  by (simp add: check_def checkAgent_def monitor1_def deadRecord_def freshRecord_def
      newHealthMonitor_def truthyNum_def toNumber_def noStats_def Let_def)

section \<open>Quota probe: estimation and thresholds\<close>





lemma record_usage_total:
  "truthyStr (r_agentId result) \<Longrightarrow>
   qp_totalTokens (fst (record_usage now result probe))
     = fl64 (qp_totalTokens probe + estimateTokens probe result)"
  by (simp add: record_usage_def Let_def)

lemma estimate_amended: "estimateTokens probe result = amended_tokens probe result"
  by (auto simp: estimateTokens_def amended_tokens_def fallbackEstimate_def outputEstimate_def
      durationEstimate_def divide64_def times64_def split: option.splits)

text \<open>
  C8, as the code has it. For a \<open>record()\<close> call with an agent id, on a probe whose
  \<open>charsPerToken\<close> is not \<open>0\<close> (as after construction), the tokens recorded
  (added to the total and reported in the \<open>usage\<close> event) are: the caller's explicit
  positive \<open>tokens\<close> value whatever the estimation mode; without one, in \<open>duration\<close>
  mode with a duration \<open>\<lceil>(durationMs / 1000) \<sqdot> tokensPerSecond\<rceil>\<close>; in every other
  case (\<open>output\<close> mode, \<open>reported\<close> mode without a positive count, \<open>duration\<close> mode
  without a duration) the output estimate \<open>\<lceil>len(output) / charsPerToken\<rceil>\<close> when output
  is available and \<open>0\<close> otherwise. The quotients, the product and the sum that makes the
  new total are those of doubles, each rounded to the nearest double before the ceiling
  is taken. \<open>charsPerToken\<close> defaults to 4 and is never 0, \<open>tokensPerSecond\<close> defaults
  to 50.
\<close>

theorem record_tokens:
  assumes "truthyStr (r_agentId result)" and "qp_charsPerToken probe \<noteq> 0"
  shows "qp_totalTokens (fst (record_usage now result probe))
           = plus64 (qp_totalTokens probe) (amended_tokens probe result) \<and>
         (\<exists>aid total budget.
            hd (snd (record_usage now result probe))
              = Usage aid (amended_tokens probe result) total budget) \<and>
         qp_charsPerToken (newQuotaProbe config) \<noteq> 0 \<and>
         (qc_charsPerToken config = None \<longrightarrow> qp_charsPerToken (newQuotaProbe config) = 4) \<and>
         (qc_tokensPerSecond config = None \<longrightarrow> qp_tokensPerSecond (newQuotaProbe config) = 50)"
proof -
  have "qp_totalTokens (fst (record_usage now result probe))
           = plus64 (qp_totalTokens probe) (amended_tokens probe result)"
    using assms(1) by (simp add: record_usage_total estimate_amended plus64_def)
  moreover have "\<exists>aid total budget.
            hd (snd (record_usage now result probe))
              = Usage aid (amended_tokens probe result) total budget"
    using assms(1) by (simp add: record_usage_def Let_def estimate_amended)
  moreover have "qp_charsPerToken (newQuotaProbe config) \<noteq> 0"
    by (simp add: newQuotaProbe_def orDefault_def CHARS_PER_TOKEN_def split: option.splits)
  moreover have "qc_charsPerToken config = None \<longrightarrow> qp_charsPerToken (newQuotaProbe config) = 4"
    by (simp add: newQuotaProbe_def orDefault_def CHARS_PER_TOKEN_def)
  moreover have "qc_tokensPerSecond config = None \<longrightarrow> qp_tokensPerSecond (newQuotaProbe config) = 50"
    by (simp add: newQuotaProbe_def orDefault_def DEFAULT_TOKENS_PER_SECOND_def)
  ultimately show ?thesis by blast
qed

theorem record_tokens_witness:
  "truthyStr (r_agentId outputOnlyResult) \<and> truthyStr (r_agentId durationResult) \<and>
   qp_charsPerToken durationProbe \<noteq> 0 \<and>
   qp_estimationMethod durationProbe = ''duration'' \<and>
   qp_totalTokens (fst (record_usage 0 outputOnlyResult durationProbe)) = 20 \<and>
   qp_totalTokens (fst (record_usage 0 durationResult durationProbe)) = 56 \<and>
   hd (snd (record_usage 0 durationResult durationProbe)) = Usage ''a'' 56 56 0 \<and>
   qc_charsPerToken noConfig = None \<and> qp_charsPerToken (newQuotaProbe noConfig) = 4 \<and>
   qc_tokensPerSecond noConfig = None \<and> qp_tokensPerSecond (newQuotaProbe noConfig) = 50"
proof -
  have a: "truthyStr (r_agentId outputOnlyResult)"
    by (simp add: outputOnlyResult_def truthyStr_def)
  have a': "truthyStr (r_agentId durationResult)"
    by (simp add: durationResult_def truthyStr_def)
  have v: "amended_tokens durationProbe outputOnlyResult = 20"
    by code_simp
  have v': "amended_tokens durationProbe durationResult = 56"
    by code_simp
  have s: "plus64 0 20 = 20" "plus64 0 56 = 56"
    by code_simp+
  have t: "qp_totalTokens durationProbe = 0"
    by (simp add: durationProbe_def newQuotaProbe_def)
  have m: "qp_estimationMethod durationProbe = ''duration''"
    by (simp add: durationProbe_def newQuotaProbe_def noConfig_def)
  have c: "qp_charsPerToken durationProbe \<noteq> 0"
    by (simp add: durationProbe_def newQuotaProbe_def noConfig_def orDefault_def
        CHARS_PER_TOKEN_def)
  have e: "hd (snd (record_usage 0 durationResult durationProbe)) = Usage ''a'' 56 56 0"
    by code_simp
  show ?thesis
    using record_tokens [OF a c, of 0 noConfig] record_tokens [OF a' c, of 0 noConfig]
      a a' c v v' s t m e
    by (simp add: noConfig_def)
qed

text \<open>
  The claim as stated fails in \<open>output\<close> mode (the default) when the caller passes
  an explicit count: the probe records 1234, not the output estimate 1. And the formula
  of \<open>duration\<close> mode read over the rationals is not what the probe records: for a task
  of 1100 ms at the default rate it is 55, where the probe records 56, since the double
  nearest to \<open>1.1\<close> lies above it and its product with 50 above 55.
\<close>

theorem record_tokens_counterexample:
  "qp_estimationMethod defaultProbe = ''output'' \<and>
   truthyStr (r_output explicitResult) \<and>
   \<lceil>outputLength explicitResult / qp_charsPerToken defaultProbe\<rceil> = 1 \<and>
   qp_totalTokens (fst (record_usage 0 explicitResult defaultProbe)) = 1234 \<and>
   qp_estimationMethod durationProbe = ''duration'' \<and>
   r_durationMs durationResult = Some 1100 \<and> r_tokens durationResult = None \<and>
   exactDurationEstimate durationProbe durationResult = 55 \<and>
   qp_totalTokens (fst (record_usage 0 durationResult durationProbe)) = 56"
  by code_simp

lemma record_usage_budget: "qp_budget (fst (record_usage now result probe)) = qp_budget probe"
  by (simp add: record_usage_def Let_def)











section \<open>Supervisor: crash recovery\<close>

text \<open>
  C6. For a crash of an agent whose entry exists and has no restart scheduled (and
  whose \<open>stableSince\<close> is a time stamp, not \<open>0\<close>): the restart count is incremented and
  an unset \<open>firstRestartAt\<close> becomes \<open>now\<close>; if more than 5 minutes have passed since
  \<open>stableSince\<close> the counters are reset to \<open>restartCount = 1\<close>, \<open>firstRestartAt = now\<close>.
  Then, if \<open>restartCount > 5\<close> and less than 30 minutes have passed since
  \<open>firstRestartAt\<close>, \<open>agent-degraded\<close> is emitted, no timer is added and
  \<open>restartScheduled\<close> stays unset; otherwise one timer is added with a delay of
  \<open>min(2^restartCount, 300)\<close> seconds and \<open>restartScheduled\<close> is set.
\<close>

theorem crash_backoff:
  assumes "map_of (s_processTable s) aid = Some entry"
      and "\<not> e_restartScheduled entry"
      and "e_stableSince entry \<noteq> 0"
  shows "(let newBurst = now - e_stableSince entry > 5 * 60 * 1000;
              restartCount = (if newBurst then 1 else e_restartCount entry + 1);
              firstRestartAt = (if newBurst then now
                                else if truthyNum (e_firstRestartAt entry)
                                then toNumber (e_firstRestartAt entry) else now);
              s' = handleCrash now aid s
          in \<exists>entry'. map_of (s_processTable s') aid = Some entry' \<and>
               e_restartCount entry' = restartCount \<and>
               e_firstRestartAt entry' = Some firstRestartAt \<and>
               (if restartCount > 5 \<and> now - firstRestartAt < 30 * 60 * 1000
                then newEvents s s' = [Log ''agent_degraded'', AgentDegraded aid restartCount] \<and>
                     s_restartTimers s' = s_restartTimers s \<and>
                     \<not> e_restartScheduled entry'
                else newEvents s s' = [Log ''agent_restart_scheduled''] \<and>
                     s_restartTimers s'
                       = s_restartTimers s @ [(min (2 ^ restartCount) 300 * 1000, aid)] \<and>
                     e_restartScheduled entry'))"
  using assms
  by (auto simp: handleCrash_def Let_def update_conv' newEvents_def truthyNum_def toNumber_def
      split: option.splits)

theorem crash_backoff_witness:
  "map_of (s_processTable burstFleet) ''dddddddd'' = Some burstEntry \<and>
   \<not> e_restartScheduled burstEntry \<and> e_stableSince burstEntry \<noteq> 0 \<and>
   newEvents burstFleet (handleCrash 60000 ''dddddddd'' burstFleet)
     = [Log ''agent_degraded'', AgentDegraded ''dddddddd'' 6] \<and>
   s_restartTimers (handleCrash 60000 ''dddddddd'' burstFleet) = [] \<and>
   map_of (s_processTable fleet) ''cccccccc'' = Some entryC \<and>
   \<not> e_restartScheduled entryC \<and> e_stableSince entryC \<noteq> 0 \<and>
   s_restartTimers (handleCrash 5000 ''cccccccc'' fleet) = [(2000, ''cccccccc'')]"
proof -
  have m1: "map_of (s_processTable burstFleet) ''dddddddd'' = Some burstEntry"
    by (simp add: burstFleet_def fleet_def)
  have r1: "\<not> e_restartScheduled burstEntry" "e_stableSince burstEntry \<noteq> 0"
    "e_restartCount burstEntry = 5" "e_firstRestartAt burstEntry = Some 2000"
    "e_stableSince burstEntry = 50000"
    by (simp_all add: burstEntry_def entryD_def mkEntry_def)
  have m2: "map_of (s_processTable fleet) ''cccccccc'' = Some entryC"
    by (simp add: fleet_def)
  have r2: "\<not> e_restartScheduled entryC" "e_stableSince entryC \<noteq> 0"
    "e_restartCount entryC = 0" "e_firstRestartAt entryC = None" "e_stableSince entryC = 2000"
    by (simp_all add: entryC_def mkEntry_def)
  have t1: "s_restartTimers burstFleet = []" and t2: "s_restartTimers fleet = []"
    by (simp_all add: burstFleet_def fleet_def)
  have c1: "newEvents burstFleet (handleCrash 60000 ''dddddddd'' burstFleet)
              = [Log ''agent_degraded'', AgentDegraded ''dddddddd'' 6] \<and>
            s_restartTimers (handleCrash 60000 ''dddddddd'' burstFleet) = []"
    using crash_backoff [OF m1 r1(1) r1(2), of 60000] r1 t1
    by (auto simp: Let_def truthyNum_def toNumber_def)
  have c2: "s_restartTimers (handleCrash 5000 ''cccccccc'' fleet) = [(2000, ''cccccccc'')]"
    using crash_backoff [OF m2 r2(1) r2(2), of 5000] r2 t2
    by (auto simp: Let_def truthyNum_def toNumber_def)
  show ?thesis
    using m1 m2 r1(1,2) r2(1,2) c1 c2 by simp
qed

section \<open>Supervisor: promotion admission\<close>

text \<open>What \<open>_handleCrash\<close> leaves alone: the daemons, the counters of the admission
  controller and the queue. It adds log lines and \<open>agent-degraded\<close> only.\<close>

lemma handleCrash_daemons:
  "map_option e_daemon (map_of (s_processTable (handleCrash now aid s)) k)
     = map_option e_daemon (map_of (s_processTable s) k)"
  by (auto simp: handleCrash_def Let_def update_conv' split: option.splits)

lemma handleCrash_frame:
  "s_activeCount (handleCrash now aid s) = s_activeCount s \<and>
   s_maxActive (handleCrash now aid s) = s_maxActive s \<and>
   s_promotionsPaused (handleCrash now aid s) = s_promotionsPaused s"
  by (simp add: handleCrash_def Let_def split: option.splits)

lemma handleCrash_trace:
  "\<exists>evs. s_trace (handleCrash now aid s) = s_trace s @ evs \<and> list_all isLogOrDegraded evs"
  by (simp add: handleCrash_def Let_def isLogOrDegraded_def split: option.splits)

lemma onDaemon_deny:
  assumes "map_of (s_processTable s) aid = Some entry"
      and "d_state (e_daemon entry) = PROMOTING" and "reason \<noteq> []"
  shows "onDaemon now aid (denyPromotion (Some reason)) s =
     Inr (s\<lparr>s_processTable := AList.update aid
               (entry\<lparr>e_daemon := (e_daemon entry)\<lparr>d_state := IDLE, d_currentTask := None\<rparr>\<rparr>)
               (s_processTable s),
             s_trace := s_trace s @ [FromDaemon (Unclaim (d_agentId (e_daemon entry)) reason)]\<rparr>)"
  using assms by (simp add: onDaemon_def denyPromotion_def)

lemma onDaemon_approve_spawned:
  assumes "map_of (s_processTable s) aid = Some entry"
      and "d_state (e_daemon entry) = PROMOTING"
      and "t \<noteq> None \<or> d_currentTask (e_daemon entry) \<noteq> None"
  shows "onDaemon now aid (approvePromotion (Spawned p) t) s =
     Inr (logEvent ''agent_promoted''
       ((case c_pid p of
           None \<Rightarrow> (\<lambda>x. x)
         | Some n \<Rightarrow> if n = 0 then (\<lambda>x. x)
                     else (\<lambda>x. x\<lparr>s_healthMonitor := updatePid (d_agentId (e_daemon entry)) (Some n)
                                                      (s_healthMonitor x)\<rparr>))
        (s\<lparr>s_processTable := AList.update aid
              (entry\<lparr>e_daemon := (stopHeartbeat ((e_daemon entry)\<lparr>
                   d_currentTask := (case t of Some x \<Rightarrow> Some x
                                      | None \<Rightarrow> d_currentTask (e_daemon entry)),
                   d_state := ACTIVE\<rparr>))\<lparr>d_claudeProcess := Some p\<rparr>\<rparr>)
              (s_processTable s),
            s_trace := s_trace s @
              [FromDaemon (Promoted (d_agentId (e_daemon entry)) (c_pid p)
                 (case t of Some x \<Rightarrow> Some x | None \<Rightarrow> d_currentTask (e_daemon entry)))],
            s_activeCount := s_activeCount s + 1\<rparr>)))"
  using assms
  by (auto simp: onDaemon_def approvePromotion_def spawnClaude_def stopHeartbeat_def Let_def
      split: option.splits)

lemma onDaemon_approve_throws:
  assumes "map_of (s_processTable s) aid = Some entry"
      and "d_state (e_daemon entry) = PROMOTING"
      and "t \<noteq> None \<or> d_currentTask (e_daemon entry) \<noteq> None"
  shows "onDaemon now aid (approvePromotion (SpawnThrows msg) t) s =
     Inr (handleCrash now (d_agentId (e_daemon entry))
       (s\<lparr>s_processTable := AList.update aid
             (entry\<lparr>e_daemon := (stopHeartbeat ((e_daemon entry)\<lparr>
                  d_currentTask := (case t of Some x \<Rightarrow> Some x
                                     | None \<Rightarrow> d_currentTask (e_daemon entry)),
                  d_state := ACTIVE\<rparr>))\<lparr>d_state := CRASHED\<rparr>\<rparr>)
             (s_processTable s),
           s_trace := s_trace s @
             [FromDaemon (Fail (d_agentId (e_daemon entry))
                (case t of Some x \<Rightarrow> Some x | None \<Rightarrow> d_currentTask (e_daemon entry)) msg),
              Log ''task_fail'',
              FromDaemon (Crashed (d_agentId (e_daemon entry)) msg)]\<rparr>))"
  using assms
  by (auto simp: onDaemon_def approvePromotion_def spawnClaude_def handleClaudeError_def
      stopHeartbeat_def logEvent_def Let_def split: option.splits)

text \<open>
  C2. For a promotion request that carries its task, from a daemon that is in the
  process table and in state \<open>promoting\<close>, the admission controller returns normally
  and, in this order: if promotions are paused, it denies the request with reason
  \<open>promotions paused (budget/quota)\<close> (the daemon is idle, its task cleared, \<open>unclaim\<close>
  emitted with that reason); else if \<open>activeCount \<ge> maxActive\<close>, it appends the request
  to the end of the queue and leaves the process table as it is, so the daemon stays
  \<open>promoting\<close>; else if \<open>tokenBudget > 0\<close> and \<open>tokensUsed \<ge> tokenBudget\<close>, it sets
  \<open>promotionsPaused\<close> and denies with reason \<open>token budget exhausted\<close>; otherwise it
  approves: no \<open>unclaim\<close> is emitted, the daemon takes the task of the request and
  starts the executor, which makes it \<open>active\<close> with \<open>activeCount\<close> incremented and
  \<open>promoted\<close> emitted, or \<open>crashed\<close> when starting the executor throws.
\<close>

theorem promotion_admission:
  assumes "map_of (s_processTable s) (pr_agentId req) = Some entry"
      and "d_state (e_daemon entry) = PROMOTING"
      and "pr_task req \<noteq> None"
  shows "\<exists>s'. handlePromoteRequest env now req s = Inr s' \<and>
    (if s_promotionsPaused s then
       map_of (s_processTable s') (pr_agentId req)
         = Some (entry\<lparr>e_daemon := (e_daemon entry)\<lparr>d_state := IDLE, d_currentTask := None\<rparr>\<rparr>) \<and>
       newEvents s s'
         = [FromDaemon (Unclaim (d_agentId (e_daemon entry)) ''promotions paused (budget/quota)'')] \<and>
       s_promotionQueue s' = s_promotionQueue s \<and> s_activeCount s' = s_activeCount s \<and>
       s_promotionsPaused s'
     else if s_activeCount s \<ge> s_maxActive s then
       s_promotionQueue s' = s_promotionQueue s @ [req] \<and>
       s_processTable s' = s_processTable s \<and>
       newEvents s s' = [Log ''promotion_queued''] \<and>
       s_activeCount s' = s_activeCount s \<and> \<not> s_promotionsPaused s'
     else if s_tokenBudget s > 0 \<and> s_tokensUsed s \<ge> s_tokenBudget s then
       s_promotionsPaused s' \<and>
       map_of (s_processTable s') (pr_agentId req)
         = Some (entry\<lparr>e_daemon := (e_daemon entry)\<lparr>d_state := IDLE, d_currentTask := None\<rparr>\<rparr>) \<and>
       newEvents s s'
         = [FromDaemon (Unclaim (d_agentId (e_daemon entry)) ''token budget exhausted''),
            Log ''promotions_paused''] \<and>
       s_promotionQueue s' = s_promotionQueue s \<and> s_activeCount s' = s_activeCount s
     else
       s_promotionQueue s' = s_promotionQueue s \<and> \<not> s_promotionsPaused s' \<and>
       list_all (\<lambda>ev. \<forall>a r. ev \<noteq> FromDaemon (Unclaim a r)) (newEvents s s') \<and>
       (\<exists>d'. map_option e_daemon (map_of (s_processTable s') (pr_agentId req)) = Some d' \<and>
          d_currentTask d' = (case pr_task req of Some t \<Rightarrow> Some t
                              | None \<Rightarrow> d_currentTask (e_daemon entry)) \<and>
          (case env (pr_agentId req) of
             Spawned p \<Rightarrow>
               d_state d' = ACTIVE \<and> d_claudeProcess d' = Some p \<and>
               s_activeCount s' = s_activeCount s + 1 \<and>
               FromDaemon (Promoted (d_agentId (e_daemon entry)) (c_pid p) (d_currentTask d'))
                 \<in> set (newEvents s s')
           | SpawnThrows msg \<Rightarrow>
               d_state d' = CRASHED \<and> s_activeCount s' = s_activeCount s \<and>
               FromDaemon (Crashed (d_agentId (e_daemon entry)) msg) \<in> set (newEvents s s'))))"
proof (cases "s_promotionsPaused s")
  case True
  then show ?thesis
    using onDaemon_deny [OF assms(1,2), of "''promotions paused (budget/quota)''" now]
    by (simp add: handlePromoteRequest_def newEvents_def update_conv')
next
  case notPaused: False
  show ?thesis
  proof (cases "s_activeCount s \<ge> s_maxActive s")
    case True
    then show ?thesis
      using notPaused by (simp add: handlePromoteRequest_def newEvents_def logEvent_def)
  next
    case room: False
    show ?thesis
    proof (cases "s_tokenBudget s > 0 \<and> s_tokensUsed s \<ge> s_tokenBudget s")
      case True
      have "map_of (s_processTable (s\<lparr>s_promotionsPaused := True\<rparr>)) (pr_agentId req) = Some entry"
        using assms(1) by simp
      from onDaemon_deny [OF this assms(2), of "''token budget exhausted''" now]
      show ?thesis
        using notPaused room True
        by (simp add: handlePromoteRequest_def newEvents_def logEvent_def update_conv')
    next
      case budget: False
      have eq: "handlePromoteRequest env now req s
          = onDaemon now (pr_agentId req)
              (approvePromotion (env (pr_agentId req)) (pr_task req)) s"
        using notPaused room budget by (auto simp: handlePromoteRequest_def)
      have tk: "pr_task req \<noteq> None \<or> d_currentTask (e_daemon entry) \<noteq> None"
        using assms(3) by simp
      show ?thesis
      proof (cases "env (pr_agentId req)")
        case (Spawned p)
        show ?thesis
          using notPaused room budget
          unfolding eq Spawned onDaemon_approve_spawned [OF assms(1,2) tk]
          by (auto simp: newEvents_def logEvent_def update_conv' stopHeartbeat_def
              split: option.splits)
      next
        case (SpawnThrows msg)
        define s1 where "s1 = s\<lparr>s_processTable := AList.update (pr_agentId req)
             (entry\<lparr>e_daemon := (stopHeartbeat ((e_daemon entry)\<lparr>
                  d_currentTask := (case pr_task req of Some x \<Rightarrow> Some x
                                     | None \<Rightarrow> d_currentTask (e_daemon entry)),
                  d_state := ACTIVE\<rparr>))\<lparr>d_state := CRASHED\<rparr>\<rparr>)
             (s_processTable s),
           s_trace := s_trace s @
             [FromDaemon (Fail (d_agentId (e_daemon entry))
                (case pr_task req of Some x \<Rightarrow> Some x | None \<Rightarrow> d_currentTask (e_daemon entry)) msg),
              Log ''task_fail'',
              FromDaemon (Crashed (d_agentId (e_daemon entry)) msg)]\<rparr>"
        define s' where "s' = handleCrash now (d_agentId (e_daemon entry)) s1"
        have res: "handlePromoteRequest env now req s = Inr s'"
          unfolding eq SpawnThrows onDaemon_approve_throws [OF assms(1,2) tk] s'_def s1_def ..
        obtain evs where tr: "s_trace s' = s_trace s1 @ evs" and lg: "list_all isLogOrDegraded evs"
          using handleCrash_trace [of now "d_agentId (e_daemon entry)" s1] s'_def by blast
        have ne: "newEvents s s' =
             [FromDaemon (Fail (d_agentId (e_daemon entry))
                (case pr_task req of Some x \<Rightarrow> Some x | None \<Rightarrow> d_currentTask (e_daemon entry)) msg),
              Log ''task_fail'',
              FromDaemon (Crashed (d_agentId (e_daemon entry)) msg)] @ evs"
          using tr by (simp add: newEvents_def s1_def)
        have nu: "list_all (\<lambda>ev. \<forall>a r. ev \<noteq> FromDaemon (Unclaim a r)) evs"
          using lg by (induction evs) (auto simp: isLogOrDegraded_def split: sup_event.splits)
        obtain d' where dm: "map_option e_daemon (map_of (s_processTable s') (pr_agentId req)) = Some d'"
          and dst: "d_state d' = CRASHED"
          and dt: "d_currentTask d' = (case pr_task req of Some t \<Rightarrow> Some t
                              | None \<Rightarrow> d_currentTask (e_daemon entry))"
          by (simp add: s'_def s1_def handleCrash_daemons update_conv' stopHeartbeat_def)
        have fr: "s_activeCount s' = s_activeCount s" "s_promotionsPaused s' = s_promotionsPaused s"
          "s_promotionQueue s' = s_promotionQueue s"
          by (simp_all add: s'_def s1_def handleCrash_frame handleCrash_queue)
        show ?thesis
          using notPaused room budget SpawnThrows res ne nu dm dst dt fr
          by auto
      qed
    qed
  qed
qed

theorem promotion_admission_witness:
  "map_of (s_processTable fleet) (pr_agentId requestD) = Some entryD \<and>
   d_state (e_daemon entryD) = PROMOTING \<and> pr_task requestD \<noteq> None \<and>
   (\<exists>s'. handlePromoteRequest spawnsFine 5000 requestD (fleet\<lparr>s_promotionsPaused := True\<rparr>) = Inr s' \<and>
      newEvents (fleet\<lparr>s_promotionsPaused := True\<rparr>) s'
        = [FromDaemon (Unclaim ''dddddddd'' ''promotions paused (budget/quota)'')]) \<and>
   (\<exists>s'. handlePromoteRequest spawnsFine 5000 requestD (fleet\<lparr>s_maxActive := 1\<rparr>) = Inr s' \<and>
      s_promotionQueue s' = [requestD]) \<and>
   (\<exists>s'. handlePromoteRequest spawnsFine 5000 requestD
            (fleet\<lparr>s_tokenBudget := 100, s_tokensUsed := 100\<rparr>) = Inr s' \<and>
      s_promotionsPaused s' \<and>
      newEvents (fleet\<lparr>s_tokenBudget := 100, s_tokensUsed := 100\<rparr>) s'
        = [FromDaemon (Unclaim ''dddddddd'' ''token budget exhausted''), Log ''promotions_paused'']) \<and>
   (\<exists>s'. handlePromoteRequest spawnsFine 5000 requestD fleet = Inr s' \<and>
      s_activeCount s' = 2 \<and>
      map_option (d_state \<circ> e_daemon) (map_of (s_processTable s') ''dddddddd'') = Some ACTIVE)"
proof -
  have m: "map_of (s_processTable fleet) (pr_agentId requestD) = Some entryD"
    by (simp add: fleet_def requestD_def)
  have p: "d_state (e_daemon entryD) = PROMOTING"
    by (simp add: entryD_def mkEntry_def mkDaemon_def)
  have i: "d_agentId (e_daemon entryD) = ''dddddddd''" "pr_agentId requestD = ''dddddddd''"
    by (simp_all add: entryD_def mkEntry_def mkDaemon_def requestD_def)
  have tk: "pr_task requestD \<noteq> None"
    by (simp add: requestD_def)
  have f: "s_promotionQueue fleet = []" "s_activeCount fleet = 1" "s_maxActive fleet = 2"
    "s_tokenBudget fleet = 0" "\<not> s_promotionsPaused fleet"
    by (simp_all add: fleet_def)
  have m1: "map_of (s_processTable (fleet\<lparr>s_promotionsPaused := True\<rparr>)) (pr_agentId requestD)
              = Some entryD"
    and m2: "map_of (s_processTable (fleet\<lparr>s_maxActive := 1\<rparr>)) (pr_agentId requestD) = Some entryD"
    and m3: "map_of (s_processTable (fleet\<lparr>s_tokenBudget := 100, s_tokensUsed := 100\<rparr>))
               (pr_agentId requestD) = Some entryD"
    using m by simp_all
  have c1: "\<exists>s'. handlePromoteRequest spawnsFine 5000 requestD (fleet\<lparr>s_promotionsPaused := True\<rparr>) = Inr s' \<and>
      newEvents (fleet\<lparr>s_promotionsPaused := True\<rparr>) s'
        = [FromDaemon (Unclaim ''dddddddd'' ''promotions paused (budget/quota)'')]"
    using promotion_admission [OF m1 p tk, of spawnsFine 5000] i by auto
  have c2: "\<exists>s'. handlePromoteRequest spawnsFine 5000 requestD (fleet\<lparr>s_maxActive := 1\<rparr>) = Inr s' \<and>
      s_promotionQueue s' = [requestD]"
    using promotion_admission [OF m2 p tk, of spawnsFine 5000] f by auto
  have c3: "\<exists>s'. handlePromoteRequest spawnsFine 5000 requestD
            (fleet\<lparr>s_tokenBudget := 100, s_tokensUsed := 100\<rparr>) = Inr s' \<and>
      s_promotionsPaused s' \<and>
      newEvents (fleet\<lparr>s_tokenBudget := 100, s_tokensUsed := 100\<rparr>) s'
        = [FromDaemon (Unclaim ''dddddddd'' ''token budget exhausted''), Log ''promotions_paused'']"
    using promotion_admission [OF m3 p tk, of spawnsFine 5000] f i by auto
  have c4: "\<exists>s'. handlePromoteRequest spawnsFine 5000 requestD fleet = Inr s' \<and>
      s_activeCount s' = 2 \<and>
      map_option (d_state \<circ> e_daemon) (map_of (s_processTable s') ''dddddddd'') = Some ACTIVE"
    using promotion_admission [OF m p tk, of spawnsFine 5000] f i
    by (auto simp: spawnsFine_def)
  show ?thesis
    using m p tk c1 c2 c3 c4 by blast
qed

section \<open>Supervisor: the promotion queue\<close>

lemma approve_returns:
  assumes "map_of (s_processTable s) aid = Some entry"
      and "d_state (e_daemon entry) = PROMOTING"
      and "t \<noteq> None"
  shows "\<exists>s1. onDaemon now aid (approvePromotion outcome t) s = Inr s1"
proof (cases outcome)
  case (Spawned p)
  then show ?thesis using onDaemon_approve_spawned [OF assms(1,2)] assms(3) by simp
next
  case (SpawnThrows msg)
  then show ?thesis using onDaemon_approve_throws [OF assms(1,2)] assms(3) by simp
qed

lemma queue_stop:
  "s_promotionQueue s = [] \<or> \<not> s_activeCount s < s_maxActive s \<or> s_promotionsPaused s
   \<Longrightarrow> processPromotionQueue env now s = Inr s"
  by (subst processPromotionQueue.simps) auto

lemma queue_approve:
  assumes "s_promotionQueue s = req # rest" and "s_activeCount s < s_maxActive s"
      and "\<not> s_promotionsPaused s"
      and "map_of (s_processTable s) (pr_agentId req) = Some entry"
      and "d_state (e_daemon entry) = PROMOTING"
      and "onDaemon now (pr_agentId req) (approvePromotion (env (pr_agentId req)) (pr_task req))
             (s\<lparr>s_promotionQueue := rest\<rparr>) = Inr s1"
  shows "processPromotionQueue env now s = processPromotionQueue env now s1"
  using assms by (subst processPromotionQueue.simps) (simp add: Let_def)

lemma queue_approve_raises:
  assumes "s_promotionQueue s = req # rest" and "s_activeCount s < s_maxActive s"
      and "\<not> s_promotionsPaused s"
      and "map_of (s_processTable s) (pr_agentId req) = Some entry"
      and "d_state (e_daemon entry) = PROMOTING"
      and "onDaemon now (pr_agentId req) (approvePromotion (env (pr_agentId req)) (pr_task req))
             (s\<lparr>s_promotionQueue := rest\<rparr>) = Inl err"
  shows "processPromotionQueue env now s = Inl err"
  using assms by (subst processPromotionQueue.simps) (simp add: Let_def)

lemma queue_discard:
  assumes "s_promotionQueue s = req # rest" and "s_activeCount s < s_maxActive s"
      and "\<not> s_promotionsPaused s"
      and "\<forall>entry. map_of (s_processTable s) (pr_agentId req) = Some entry
                \<longrightarrow> d_state (e_daemon entry) \<noteq> PROMOTING"
  shows "processPromotionQueue env now s
           = processPromotionQueue env now (s\<lparr>s_promotionQueue := rest\<rparr>)"
  using assms
  by (subst processPromotionQueue.simps) (auto simp: Let_def split: option.splits)

lemma drain_is_run: "drain env now s s' \<Longrightarrow> processPromotionQueue env now s = Inr s'"
proof (induction rule: drain.induct)
  case (drain_stop s)
  then show ?case by (rule queue_stop)
next
  case (drain_approve s req rest entry s1 s')
  then show ?case using queue_approve [of s req rest entry now env s1] by simp
next
  case (drain_discard s req rest s')
  then show ?case using queue_discard [of s req rest env now] by simp
qed

text \<open>The run itself, by induction on the length of the queue: what it returns is
  related by \<open>drain\<close>, and it returns when every queued request carries its task.\<close>

lemma run_is_drain:
  "(\<forall>s'. processPromotionQueue env now s = Inr s' \<longrightarrow>
        drain env now s s' \<and>
        (s_promotionQueue s' = [] \<or> \<not> s_activeCount s' < s_maxActive s' \<or> s_promotionsPaused s') \<and>
        (\<exists>dequeued. s_promotionQueue s = dequeued @ s_promotionQueue s')) \<and>
   ((\<forall>req \<in> set (s_promotionQueue s). pr_task req \<noteq> None) \<longrightarrow>
        (\<exists>s'. processPromotionQueue env now s = Inr s'))"
proof (induction "length (s_promotionQueue s)" arbitrary: s rule: less_induct)
  case less
  show ?case
  proof (cases "s_promotionQueue s = [] \<or> \<not> s_activeCount s < s_maxActive s \<or> s_promotionsPaused s")
    case True
    then show ?thesis
      using queue_stop [OF True] drain_stop [OF True] by auto
  next
    case False
    then obtain req rest where q: "s_promotionQueue s = req # rest"
      by (cases "s_promotionQueue s") auto
    have room: "s_activeCount s < s_maxActive s" and np: "\<not> s_promotionsPaused s"
      using False by auto
    show ?thesis
    proof (cases "\<exists>entry. map_of (s_processTable s) (pr_agentId req) = Some entry
                     \<and> d_state (e_daemon entry) = PROMOTING")
      case True
      then obtain entry where e: "map_of (s_processTable s) (pr_agentId req) = Some entry"
        and p: "d_state (e_daemon entry) = PROMOTING" by blast
      have e1: "map_of (s_processTable (s\<lparr>s_promotionQueue := rest\<rparr>)) (pr_agentId req) = Some entry"
        using e by simp
      show ?thesis
      proof (cases "onDaemon now (pr_agentId req)
          (approvePromotion (env (pr_agentId req)) (pr_task req))
          (s\<lparr>s_promotionQueue := rest\<rparr>)")
        case (Inl err)
        have "processPromotionQueue env now s = Inl err"
          using queue_approve_raises [of s req rest entry now env err] q room np e p Inl by simp
        moreover have "pr_task req = None"
        proof (rule ccontr)
          assume "pr_task req \<noteq> None"
          from approve_returns [OF e1 p this, where now = now and outcome = "env (pr_agentId req)"]
          show False using Inl by auto
        qed
        ultimately show ?thesis using q by auto
      next
        case (Inr s1)
        have q1: "s_promotionQueue s1 = rest"
          using onDaemon_queue [OF Inr] by simp
        then have "length (s_promotionQueue s1) < length (s_promotionQueue s)"
          using q by simp
        note ih = less [OF this]
        have eq: "processPromotionQueue env now s = processPromotionQueue env now s1"
          using queue_approve [of s req rest entry now env s1] q room np e p Inr by simp
        have "drain env now s s' \<and>
            (s_promotionQueue s' = [] \<or> \<not> s_activeCount s' < s_maxActive s' \<or> s_promotionsPaused s') \<and>
            (\<exists>dequeued. s_promotionQueue s = dequeued @ s_promotionQueue s')"
          if r: "processPromotionQueue env now s = Inr s'" for s'
        proof -
          have r1: "processPromotionQueue env now s1 = Inr s'" using r eq by simp
          then have d: "drain env now s1 s'"
            and x: "s_promotionQueue s' = [] \<or> \<not> s_activeCount s' < s_maxActive s' \<or> s_promotionsPaused s'"
            and y: "\<exists>dequeued. s_promotionQueue s1 = dequeued @ s_promotionQueue s'"
            using ih by blast+
          have "drain env now s s'"
            using drain_approve [of s req rest entry now env s1 s'] q room np e p Inr d by simp
          moreover have "\<exists>dequeued. s_promotionQueue s = dequeued @ s_promotionQueue s'"
            using y q q1 by (auto intro: exI [of _ "req # dequeued" for dequeued])
          ultimately show ?thesis using x by blast
        qed
        moreover have "\<exists>s'. processPromotionQueue env now s = Inr s'"
          if "\<forall>req \<in> set (s_promotionQueue s). pr_task req \<noteq> None"
          using that ih eq q q1 by auto
        ultimately show ?thesis by blast
      qed
    next
      case False
      then have n: "\<forall>entry. map_of (s_processTable s) (pr_agentId req) = Some entry
                \<longrightarrow> d_state (e_daemon entry) \<noteq> PROMOTING" by blast
      define s1 where "s1 = s\<lparr>s_promotionQueue := rest\<rparr>"
      have q1: "s_promotionQueue s1 = rest" by (simp add: s1_def)
      then have "length (s_promotionQueue s1) < length (s_promotionQueue s)"
        using q by simp
      note ih = less [OF this]
      have eq: "processPromotionQueue env now s = processPromotionQueue env now s1"
        using queue_discard [of s req rest env now] q room np n by (simp add: s1_def)
      have "drain env now s s' \<and>
          (s_promotionQueue s' = [] \<or> \<not> s_activeCount s' < s_maxActive s' \<or> s_promotionsPaused s') \<and>
          (\<exists>dequeued. s_promotionQueue s = dequeued @ s_promotionQueue s')"
        if r: "processPromotionQueue env now s = Inr s'" for s'
      proof -
        have r1: "processPromotionQueue env now s1 = Inr s'" using r eq by simp
        then have d: "drain env now s1 s'"
          and x: "s_promotionQueue s' = [] \<or> \<not> s_activeCount s' < s_maxActive s' \<or> s_promotionsPaused s'"
          and y: "\<exists>dequeued. s_promotionQueue s1 = dequeued @ s_promotionQueue s'"
          using ih by blast+
        have "drain env now s s'"
          using drain_discard [of s req rest env now s'] q room np n d by (simp add: s1_def)
        moreover have "\<exists>dequeued. s_promotionQueue s = dequeued @ s_promotionQueue s'"
          using y q q1 by (auto intro: exI [of _ "req # dequeued" for dequeued])
        ultimately show ?thesis using x by blast
      qed
      moreover have "\<exists>s'. processPromotionQueue env now s = Inr s'"
        if "\<forall>req \<in> set (s_promotionQueue s). pr_task req \<noteq> None"
        using that ih eq q q1 by auto
      ultimately show ?thesis by blast
    qed
  qed
qed

text \<open>
  C5. A run of the promotion-queue processor does what the specification says: as long
  as the queue is not empty, \<open>activeCount < maxActive\<close> and promotions are not paused, it
  dequeues the head, approves it when the owning daemon is still \<open>promoting\<close> and
  discards it otherwise, and goes on with the next head. When it returns, one of the
  three conditions fails, and what is left of the queue is a suffix of the queue it
  started with. It returns whenever every queued request carries its task.
\<close>

theorem queue_processor:
  "(\<forall>s'. processPromotionQueue env now s = Inr s' \<longleftrightarrow> drain env now s s') \<and>
   (\<forall>s'. drain env now s s' \<longrightarrow>
      (s_promotionQueue s' = [] \<or> \<not> s_activeCount s' < s_maxActive s' \<or> s_promotionsPaused s') \<and>
      (\<exists>dequeued. s_promotionQueue s = dequeued @ s_promotionQueue s')) \<and>
   ((\<forall>req \<in> set (s_promotionQueue s). pr_task req \<noteq> None) \<longrightarrow>
      (\<exists>s'. processPromotionQueue env now s = Inr s'))"
proof -
  note run = run_is_drain [of env now s]
  have "processPromotionQueue env now s = Inr s' \<longleftrightarrow> drain env now s s'" for s'
    using run drain_is_run [of env now s s'] by blast
  then show ?thesis using run by blast
qed

lemma queuedFleet_run: "processPromotionQueue spawnsFine 5000 queuedFleet = Inr drainedFleet"
  by (simp add: queuedFleet_def drainedFleet_def fleet_def requestB_def requestD_def
      entryA_def entryB_def entryC_def entryD_def mkEntry_def mkDaemon_def spawnsFine_def
      onDaemon_def approvePromotion_def spawnClaude_def stopHeartbeat_def logEvent_def Let_def)

theorem queue_processor_witness:
  "pr_task requestB \<noteq> None \<and> pr_task requestD \<noteq> None \<and>
   processPromotionQueue spawnsFine 5000 queuedFleet = Inr drainedFleet \<and>
   drain spawnsFine 5000 queuedFleet drainedFleet \<and>
   s_promotionQueue queuedFleet = [requestB, requestD] \<and>
   s_promotionQueue drainedFleet = [] \<and> s_activeCount drainedFleet = 2"
  using queue_processor [of spawnsFine 5000 queuedFleet] queuedFleet_run
  by (simp add: queuedFleet_def drainedFleet_def requestB_def requestD_def)

section \<open>Supervisor: the restart after the backoff delay\<close>

text \<open>When the callback returns, \<open>activeCount\<close> is what it was: \<open>stop\<close> leaves the
  daemon idle, so the test for \<open>active\<close> that follows it never succeeds.\<close>

lemma stop_state: "d_state (fst (stop d)) = IDLE"
  by (simp add: stop_def Let_def case_prod_beta)

lemma restartCallback_activeCount:
  "restartCallback now newId aid entry s = Inr s' \<Longrightarrow> s_activeCount s' = s_activeCount s"
  by (auto simp: restartCallback_def spawnDaemon_def logEvent_def Let_def case_prod_beta stop_state
      split: if_splits sum.splits option.splits)

lemma workspace_path: "pathJoin ''/ws'' ''swarm-builder-000'' = ''/ws/swarm-builder-000''"
  by code_simp

lemma crashedFleet_entry: "entryOf ''aaaaaaaa'' crashedFleet = Some crashedEntry"
  by (simp add: entryOf_def crashedFleet_def crashedEntry_def handleCrash_def fleet_def
      entryA_def mkEntry_def truthyNum_def Let_def)

text \<open>
  C1 does not hold of the code. At \<open>crashedFleet\<close> the entry of \<open>aaaaaaaa\<close> exists,
  its daemon is \<open>active\<close>, the supervisor is running and \<open>activeCount = 1\<close>. When the
  timer fires, the callback stops the old daemon, unregisters its health record and
  removes the entry, and then throws \<open>Workspace already exists\<close>: the spawner refuses the
  name whose directory the old daemon left on disk, so no replacement is spawned. Where the
  directory is gone (second half), the replacement is spawned under the same name with
  \<open>restartCount\<close>, \<open>firstRestartAt\<close> copied and \<open>stableSince\<close> the current time. In both
  runs \<open>activeCount\<close> is still 1: the callback tests the daemon's state after \<open>stop()\<close> has
  set it to \<open>idle\<close>.
\<close>

theorem restart_callback_at_active_daemon:
  "entryOf ''aaaaaaaa'' crashedFleet = Some crashedEntry \<and>
   d_state (e_daemon crashedEntry) = ACTIVE \<and>
   s_running crashedFleet \<and> s_activeCount crashedFleet = 1 \<and>
   map_sum fst id
     (restartCallback 102000 ''eeeeeeee'' ''aaaaaaaa'' crashedEntry crashedFleet)
     = Inl (WorkspaceAlreadyExists ''/ws/swarm-builder-000'') \<and>
   map_sum (s_activeCount \<circ> snd) id
     (restartCallback 102000 ''eeeeeeee'' ''aaaaaaaa'' crashedEntry crashedFleet) = Inl 1 \<and>
   map_sum (map fst \<circ> s_processTable \<circ> snd) id
     (restartCallback 102000 ''eeeeeeee'' ''aaaaaaaa'' crashedEntry crashedFleet)
     = Inl [''bbbbbbbb'', ''cccccccc'', ''dddddddd''] \<and>
   map_sum id s_activeCount
     (restartCallback 102000 ''eeeeeeee'' ''aaaaaaaa'' crashedEntry
        (crashedFleet\<lparr>s_disk := []\<rparr>)) = Inr 1 \<and>
   map_sum id (map_option e_restartCount \<circ> entryOf ''eeeeeeee'')
     (restartCallback 102000 ''eeeeeeee'' ''aaaaaaaa'' crashedEntry
        (crashedFleet\<lparr>s_disk := []\<rparr>)) = Inr (Some 1) \<and>
   map_sum id (map_option e_firstRestartAt \<circ> entryOf ''eeeeeeee'')
     (restartCallback 102000 ''eeeeeeee'' ''aaaaaaaa'' crashedEntry
        (crashedFleet\<lparr>s_disk := []\<rparr>)) = Inr (Some (Some 100000)) \<and>
   map_sum id (map_option e_stableSince \<circ> entryOf ''eeeeeeee'')
     (restartCallback 102000 ''eeeeeeee'' ''aaaaaaaa'' crashedEntry
        (crashedFleet\<lparr>s_disk := []\<rparr>)) = Inr (Some 102000) \<and>
   map_sum id (map_option (d_name \<circ> e_daemon) \<circ> entryOf ''eeeeeeee'')
     (restartCallback 102000 ''eeeeeeee'' ''aaaaaaaa'' crashedEntry
        (crashedFleet\<lparr>s_disk := []\<rparr>)) = Inr (Some ''swarm-builder-000'')"
  by (simp add: crashedFleet_entry)
    (simp add: restartCallback_def spawnDaemon_def spawn_def newDaemon_def start_def stop_def
      startHeartbeat_def stopHeartbeat_def unregister_def register_def logEvent_def
      workspace_path existsSync_def dirKey_def
      entryOf_def crashedFleet_def crashedEntry_def handleCrash_def fleet_def
      entryA_def mkEntry_def mkDaemon_def truthyNum_def toNumber_def Let_def)

section \<open>Supervisor: scaling down\<close>

lemma removeDaemon_table:
  "s_processTable (removeDaemon aid entry s) = AList.delete aid (s_processTable s)"
  by (simp add: removeDaemon_def Let_def case_prod_beta)

lemma scaleDownLoop_result:
  "removed \<le> delta \<Longrightarrow>
   s_processTable (fst (scaleDownLoop delta xs removed s))
     = filter (\<lambda>(k, e). k \<notin> fst ` set (take (nat (delta - removed)) xs)) (s_processTable s) \<and>
   snd (scaleDownLoop delta xs removed s)
     = removed + int (length (take (nat (delta - removed)) xs))"
proof (induction xs arbitrary: removed s)
  case Nil
  then show ?case by simp
next
  case (Cons x xs)
  obtain aid entry where x: "x = (aid, entry)" by (cases x)
  show ?case
  proof (cases "removed \<ge> delta")
    case True
    then have "nat (delta - removed) = 0" by simp
    then show ?thesis using True x by simp
  next
    case False
    then have n: "nat (delta - removed) = Suc (nat (delta - (removed + 1)))" by simp
    have le: "removed + 1 \<le> delta" using False by simp
    note ih = Cons.IH [OF le, of "removeDaemon aid entry s"]
    have tbl: "s_processTable (fst (scaleDownLoop delta (x # xs) removed s))
        = filter (\<lambda>(k, e). k \<notin> fst ` set (take (nat (delta - removed)) (x # xs)))
            (s_processTable s)"
      unfolding n using False x ih
      by (auto simp: removeDaemon_table AList.delete_eq case_prod_beta image_iff
          intro!: filter_cong)
    have "snd (scaleDownLoop delta (x # xs) removed s)
        = removed + int (length (take (nat (delta - removed)) (x # xs)))"
      unfolding n using False x ih by simp
    then show ?thesis using tbl by simp
  qed
qed

lemma candidates_set:
  "set (candidates s) = {(k, e). (k, e) \<in> set (s_processTable s) \<and> d_state (e_daemon e) = IDLE}"
  by (auto simp: candidates_def)

lemma candidates_sorted: "sorted (map (\<lambda>(k, e). e_stableSince e) (candidates s))"
  by (simp add: candidates_def sorted_sort_key)

lemma candidates_length:
  "length (candidates s)
     = length (filter (\<lambda>(k, e). d_state (e_daemon e) = IDLE) (s_processTable s))"
  by (simp add: candidates_def)

text \<open>
  C9, for a target other than 0. A call \<open>scale(T)\<close> with \<open>T \<noteq> 0\<close> and \<open>T\<close> below
  the fleet size throws \<open>Supervisor not running\<close> and changes nothing when the supervisor
  is not running, and returns normally when it is. The candidates are then exactly
  the entries whose daemon is \<open>idle\<close>, in ascending order of \<open>stableSince\<close>; the entries
  removed are the first \<open>current - T\<close> candidates, or all of them when there are fewer;
  the process table afterwards is the old one without the removed agents, so the entry of
  every daemon that is not idle is there unchanged.
\<close>

theorem scale_down_spares_busy:
  assumes "target \<noteq> 0"
      and "target < int (length (s_processTable s))"
      and "distinct (map fst (s_processTable s))"
  shows "if \<not> s_running s then scale now ids target s = Inl (SupervisorNotRunning, s)
   else \<exists>s' res. scale now ids target s = Inr (s', res) \<and>
    (let removed = take (nat (int (length (s_processTable s)) - target)) (candidates s)
     in s_processTable s' = filter (\<lambda>(k, e). k \<notin> fst ` set removed) (s_processTable s) \<and>
        sr_removed res = int (length removed) \<and>
        length removed = min (nat (int (length (s_processTable s)) - target))
                             (length (filter (\<lambda>(k, e). d_state (e_daemon e) = IDLE)
                                        (s_processTable s))) \<and>
        set (candidates s)
          = {(k, e). (k, e) \<in> set (s_processTable s) \<and> d_state (e_daemon e) = IDLE} \<and>
        sorted (map (\<lambda>(k, e). e_stableSince e) (candidates s)) \<and>
        (\<forall>(k, e) \<in> set removed. d_state (e_daemon e) = IDLE) \<and>
        (\<forall>k e. map_of (s_processTable s) k = Some e \<and> d_state (e_daemon e) \<noteq> IDLE
                \<longrightarrow> map_of (s_processTable s') k = Some e))"
proof (cases "s_running s")
  case False
  then show ?thesis by (simp add: scale_def)
next
  case running: True
  define delta where "delta = int (length (s_processTable s)) - target"
  define removed where "removed = take (nat delta) (candidates s)"
  define s1 where "s1 = fst (scaleDownLoop delta (candidates s) 0 s)"
  define n where "n = snd (scaleDownLoop delta (candidates s) 0 s)"
  have pos: "0 \<le> delta" using assms(2) by (simp add: delta_def)
  from scaleDownLoop_result [OF pos, of "candidates s" s]
  have tbl: "s_processTable s1 = filter (\<lambda>(k, e). k \<notin> fst ` set removed) (s_processTable s)"
    and cnt: "n = int (length removed)"
    by (simp_all add: s1_def n_def removed_def)
  have res: "scale now ids target s
      = Inr (logEvent ''scaled_down'' s1,
             \<lparr>sr_from = int (length (s_processTable s)),
              sr_to = int (length (s_processTable s)) - n, sr_added = 0, sr_removed = n\<rparr>)"
    using running assms(1,2)
    by (simp add: scale_def Let_def case_prod_beta delta_def s1_def n_def)
  have idle: "\<forall>(k, e) \<in> set removed. (k, e) \<in> set (s_processTable s) \<and> d_state (e_daemon e) = IDLE"
    using candidates_set [of s] by (auto simp: removed_def dest: in_set_takeD)
  have keep: "map_of (s_processTable s1) k = Some e"
    if m: "map_of (s_processTable s) k = Some e" and busy: "d_state (e_daemon e) \<noteq> IDLE" for k e
  proof -
    have "k \<notin> fst ` set removed"
    proof
      assume "k \<in> fst ` set removed"
      then obtain e' where r: "(k, e') \<in> set removed" by auto
      then have "(k, e') \<in> set (s_processTable s)" and i: "d_state (e_daemon e') = IDLE"
        using idle by auto
      then have "map_of (s_processTable s) k = Some e'"
        using assms(3) by simp
      then show False using m busy i by simp
    qed
    then show ?thesis
      unfolding tbl using map_of_filter_in [OF m, of "\<lambda>k e. k \<notin> fst ` set removed"] by simp
  qed
  have len: "length removed = min (nat delta)
      (length (filter (\<lambda>(k, e). d_state (e_daemon e) = IDLE) (s_processTable s)))"
    by (simp add: removed_def candidates_length min.commute)
  show ?thesis
    unfolding res
    using running tbl cnt len idle keep candidates_set [of s] candidates_sorted [of s]
    by (simp add: Let_def logEvent_def removed_def [symmetric] delta_def [symmetric]) blast
qed

lemma supervisor_stop_table: "s_running s \<Longrightarrow> s_processTable (supervisor_stop s) = []"
  by (simp add: supervisor_stop_def logEvent_def Let_def)

lemma fleet_candidates: "map fst (candidates fleet) = [''cccccccc'', ''bbbbbbbb'']"
  by (simp add: candidates_def fleet_def entryA_def entryB_def entryC_def entryD_def
      mkEntry_def mkDaemon_def)

theorem scale_down_spares_busy_witness:
  "s_running fleet \<and> (3 :: int) \<noteq> 0 \<and> 3 < int (length (s_processTable fleet)) \<and>
   distinct (map fst (s_processTable fleet)) \<and>
   map_sum fst (map fst \<circ> s_processTable \<circ> fst) (scale 9000 fleetIds 3 fleet)
     = Inr [''aaaaaaaa'', ''bbbbbbbb'', ''dddddddd''] \<and>
   map_sum fst (sr_removed \<circ> snd) (scale 9000 fleetIds 3 fleet) = Inr 1"
proof -
  have r: "s_running fleet" and l: "3 < int (length (s_processTable fleet))"
    and d: "distinct (map fst (s_processTable fleet))"
    and k: "map fst (s_processTable fleet) = [''aaaaaaaa'', ''bbbbbbbb'', ''cccccccc'', ''dddddddd'']"
    by (simp_all add: fleet_def)
  have z: "(3 :: int) \<noteq> 0" by simp
  have t: "fst ` set (take (nat (int (length (s_processTable fleet)) - 3)) (candidates fleet))
             = {''cccccccc''}"
  proof -
    have "nat (int (length (s_processTable fleet)) - 3) = 1"
      by (simp add: fleet_def)
    moreover have "fst ` set (take 1 (candidates fleet)) = set (take 1 (map fst (candidates fleet)))"
      by (simp add: take_map)
    ultimately show ?thesis by (simp add: fleet_candidates)
  qed
  have "length (candidates fleet) = 2"
    using arg_cong [OF fleet_candidates, of length] by simp
  then have n: "length (take (nat (int (length (s_processTable fleet)) - 3)) (candidates fleet)) = 1"
    by (simp add: fleet_def)
  obtain s' res where e: "scale 9000 fleetIds 3 fleet = Inr (s', res)"
    and tb: "s_processTable s'
              = filter (\<lambda>(k, e). k \<notin> {''cccccccc''}) (s_processTable fleet)"
    and rm: "sr_removed res = 1"
    using scale_down_spares_busy [OF z l d, of 9000 fleetIds] r t n
    by (auto simp: Let_def)
  have "map fst (s_processTable s') = [''aaaaaaaa'', ''bbbbbbbb'', ''dddddddd'']"
    unfolding tb by (simp add: fleet_def)
  then show ?thesis
    using r l d e rm by simp
qed

text \<open>
  The claim as stated fails for \<open>T = 0\<close>, which is below the size of every fleet that
  has a daemon: \<open>scale(0)\<close> is \<open>stop()\<close>, which stops and removes every daemon. In \<open>fleet\<close> the
  daemon \<open>aaaaaaaa\<close> is active, and after \<open>scale(0)\<close> the process table is empty.
\<close>

theorem scale_to_zero_counterexample:
  "s_running fleet \<and> (0 :: int) < int (length (s_processTable fleet)) \<and>
   map_option (d_state \<circ> e_daemon) (entryOf ''aaaaaaaa'' fleet) = Some ACTIVE \<and>
   map_sum fst (s_processTable \<circ> fst) (scale 9000 fleetIds 0 fleet) = Inr []"
proof -
  have r: "s_running fleet" by (simp add: fleet_def)
  have "scale 9000 fleetIds 0 fleet
          = Inr (supervisor_stop fleet,
                 \<lparr>sr_from = int (length (s_processTable fleet)), sr_to = 0, sr_added = 0,
                  sr_removed = int (length (s_processTable fleet))\<rparr>)"
    using r by (simp add: scale_def Let_def)
  then have "map_sum fst (s_processTable \<circ> fst) (scale 9000 fleetIds 0 fleet) = Inr []"
    using supervisor_stop_table [OF r] by simp
  moreover have "map_option (d_state \<circ> e_daemon) (entryOf ''aaaaaaaa'' fleet) = Some ACTIVE"
    by (simp add: entryOf_def fleet_def entryA_def mkEntry_def mkDaemon_def)
  moreover have "(0 :: int) < int (length (s_processTable fleet))"
    by (simp add: fleet_def)
  ultimately show ?thesis using r by simp
qed

end
